theory Spec2Isabelle
  imports Complex_Main "HOL-Library.Sublist"
begin

section \<open>JavaScript values\<close>

text \<open>
  A JavaScript \<^verbatim>\<open>number\<close> is a binary64 value. The code below only compares numbers
  with, and returns, the constants 0, 0.25, 0.5, 0.75, 0.8 and 1 and never does arithmetic,
  so a finite number is modelled by the real it denotes; the three non-finite values are
  kept apart, because comparisons and \<^verbatim>\<open>Math.min\<close>/\<^verbatim>\<open>Math.max\<close> treat them specially.
  Strings are lists of code units; the literals the code compares with are all ASCII.
\<close>

datatype number = Finite real | NaN | PosInfinity | NegInfinity

text \<open>\<^verbatim>\<open>a <= b\<close>: false as soon as one side is NaN.\<close>

fun js_le :: "number \<Rightarrow> number \<Rightarrow> bool" where
  "js_le (Finite a) (Finite b) = (a \<le> b)"
| "js_le NaN _ = False"
| "js_le _ NaN = False"
| "js_le NegInfinity _ = True"
| "js_le _ PosInfinity = True"
| "js_le _ _ = False"

text \<open>\<^verbatim>\<open>a < b\<close>.\<close>

fun js_lt :: "number \<Rightarrow> number \<Rightarrow> bool" where
  "js_lt (Finite a) (Finite b) = (a < b)"
| "js_lt NaN _ = False"
| "js_lt _ NaN = False"
| "js_lt PosInfinity _ = False"
| "js_lt _ NegInfinity = False"
| "js_lt _ _ = True"

text \<open>\<^verbatim>\<open>Math.max\<close> and \<^verbatim>\<open>Math.min\<close> of two arguments: NaN if either argument is NaN.\<close>

definition Math_max :: "number \<Rightarrow> number \<Rightarrow> number" where
  "Math_max a b = (if a = NaN \<or> b = NaN then NaN else if js_le a b then b else a)"

definition Math_min :: "number \<Rightarrow> number \<Rightarrow> number" where
  "Math_min a b = (if a = NaN \<or> b = NaN then NaN else if js_le a b then a else b)"

text \<open>
  A thrown value: an \<^verbatim>\<open>Error\<close> with its message, a \<^verbatim>\<open>DOMException\<close> with its name and
  message (it is an \<^verbatim>\<open>Error\<close> too), or anything else.
\<close>

datatype thrown = Error string | DOMException string string | NonError

fun instanceof_Error :: "thrown \<Rightarrow> bool" where
  "instanceof_Error NonError = False"
| "instanceof_Error _ = True"

fun error_message :: "thrown \<Rightarrow> string" where
  "error_message (Error m) = m"
| "error_message (DOMException n m) = m"
| "error_message NonError = []"

text \<open>
  JSON documents. What \<^verbatim>\<open>JSON.stringify\<close> writes for a number is the number itself when it
  is finite and \<^verbatim>\<open>null\<close> otherwise; a property whose value is \<^verbatim>\<open>undefined\<close> is left out.
\<close>

datatype json = JNull | JBool bool | JNum real | JStr string
  | JArr "json list" | JObj "(string \<times> json) list"

fun json_of_number :: "number \<Rightarrow> json" where
  "json_of_number (Finite r) = JNum r"
| "json_of_number _ = JNull"

fun json_props :: "(string \<times> json option) list \<Rightarrow> (string \<times> json) list" where
  "json_props [] = []"
| "json_props ((k, None) # ps) = json_props ps"
| "json_props ((k, Some v) # ps) = (k, v) # json_props ps"

text \<open>Reading a property; when a key occurs twice the later occurrence is the one kept.\<close>

fun lookup_last :: "string \<Rightarrow> (string \<times> json) list \<Rightarrow> json option" where
  "lookup_last k [] = None"
| "lookup_last k ((k', v) # ps) =
     (case lookup_last k ps of Some w \<Rightarrow> Some w | None \<Rightarrow> if k = k' then Some v else None)"

fun json_get :: "string \<Rightarrow> json \<Rightarrow> json option" where
  "json_get k (JObj ps) = lookup_last k ps"
| "json_get k _ = None"

fun json_path :: "string list \<Rightarrow> json \<Rightarrow> json option" where
  "json_path [] j = Some j"
| "json_path (k # ks) j = (case json_get k j of None \<Rightarrow> None | Some v \<Rightarrow> json_path ks v)"

text \<open>The decimal digits of a status code, as a template literal prints them.\<close>

definition digit_char :: "nat \<Rightarrow> char" where
  "digit_char d = ''0123456789'' ! d"

function string_of_nat :: "nat \<Rightarrow> string" where
  "string_of_nat n =
     (if n < 10 then [digit_char n] else string_of_nat (n div 10) @ [digit_char (n mod 10)])"
  by pat_completeness auto
termination
  by (relation "measure (\<lambda>n. n)") auto

declare string_of_nat.simps [simp del]

section \<open>lib/env.ts and lib/elevenlabs.ts: the provider client\<close>

text \<open>The validated configuration that \<^verbatim>\<open>getServerEnv\<close> returns.\<close>

record ServerEnv =
  ELEVENLABS_API_KEY :: string
  ELEVENLABS_MODEL_ID :: string
  ELEVENLABS_OPTIMIZE_LATENCY :: "number option"

definition ELEVENLABS_BASE_URL :: string where
  "ELEVENLABS_BASE_URL = ''https://api.elevenlabs.io/v1''"

text \<open>
  \<^verbatim>\<open>selectModelForLanguage(languageCode?, defaultModel?)\<close>. An absent argument is
  \<open>None\<close>; \<^verbatim>\<open>defaultModel && ...\<close> is false for an absent and for an empty string.
\<close>

definition selectModelForLanguage :: "string option \<Rightarrow> string option \<Rightarrow> string" where
  "selectModelForLanguage languageCode defaultModel =
     (if languageCode = Some ''he'' then ''eleven_v3''
      else (case defaultModel of
              None \<Rightarrow> ''eleven_turbo_v2_5''
            | Some m \<Rightarrow>
                if m \<noteq> [] \<and> m \<noteq> ''eleven_multilingual_v2'' then m
                else ''eleven_turbo_v2_5''))"

definition getModelCharacterLimit :: "string \<Rightarrow> nat" where
  "getModelCharacterLimit modelId =
     (if modelId = ''eleven_v3'' then 3000
      else if modelId = ''eleven_flash_v2_5'' \<or> modelId = ''eleven_turbo_v2_5'' then 30000
      else if modelId = ''eleven_flash_v2'' \<or> modelId = ''eleven_turbo_v2'' then 30000
      else if modelId = ''eleven_multilingual_v2'' \<or> modelId = ''eleven_multilingual_v1''
              \<or> modelId = ''eleven_monolingual_v1'' then 10000
      else 5000)"

record SynthesisInput =
  "text" :: string
  voiceId :: string
  languageCode :: "string option"
  modelId :: "string option"
  stability :: "number option"
  similarityBoost :: "number option"
  styleExaggeration :: "number option"
  useSpeakerBoost :: "bool option"
  optimizeStreamingLatency :: "number option"
  outputFormat :: "string option"

definition clamp :: "number \<Rightarrow> number \<Rightarrow> number \<Rightarrow> number" where
  "clamp v lo hi = Math_min (Math_max v lo) hi"

text \<open>
  \<^verbatim>\<open>normalizeStabilityForV3\<close> is declared twice, with the same body, inside
  \<^verbatim>\<open>synthesizeSpeech\<close> and inside \<^verbatim>\<open>synthesizeSpeechStream\<close>.
\<close>

definition normalizeStabilityForV3 :: "number \<Rightarrow> number" where
  "normalizeStabilityForV3 v =
     (if js_le v (Finite 0.25) then Finite 0.0
      else if js_le v (Finite 0.75) then Finite 0.5
      else Finite 1.0)"

text \<open>What is handed to \<^verbatim>\<open>fetch\<close>, and what comes back.\<close>

record fetch_request =
  req_url :: string
  req_method :: string
  req_headers :: "(string \<times> string) list"
  req_body :: json

text \<open>
  \<open>res_json\<close> is the text \<^verbatim>\<open>JSON.stringify\<close> gives for the parsed body when the body is
  JSON and parses to a truthy value, and \<open>None\<close> when \<^verbatim>\<open>safeParseJson\<close> returns \<^verbatim>\<open>null\<close>
  or the parsed value is falsy. \<open>res_body\<close> is the byte stream, \<open>None\<close> for a null body.
\<close>

record fetch_response =
  res_ok :: bool
  res_status :: nat
  res_statusText :: string
  res_json :: "string option"
  res_arrayBuffer :: "thrown + nat list"
  res_body :: "nat list option"

text \<open>The request of the buffered path, \<^verbatim>\<open>synthesizeSpeech\<close>.\<close>

definition synthesizeSpeech_request :: "ServerEnv \<Rightarrow> SynthesisInput \<Rightarrow> fetch_request" where
  "synthesizeSpeech_request env input =
     (let text = SynthesisInput.text input;
          voiceId = voiceId input;
          languageCode = languageCode input;
          modelId = modelId input;
          stability = (case stability input of None \<Rightarrow> Finite 0.5 | Some v \<Rightarrow> v);
          similarityBoost = (case similarityBoost input of None \<Rightarrow> Finite 0.8 | Some v \<Rightarrow> v);
          styleExaggeration = styleExaggeration input;
          useSpeakerBoost = (case useSpeakerBoost input of None \<Rightarrow> True | Some b \<Rightarrow> b);
          optimizeStreamingLatency =
            (case optimizeStreamingLatency input of
               Some l \<Rightarrow> l
             | None \<Rightarrow> (case ELEVENLABS_OPTIMIZE_LATENCY env of Some l \<Rightarrow> l | None \<Rightarrow> Finite 0));
          outputFormat = (case outputFormat input of None \<Rightarrow> ''mp3_44100_128'' | Some f \<Rightarrow> f);
          selectedModel =
            selectModelForLanguage languageCode
              (Some (case modelId of None \<Rightarrow> ELEVENLABS_MODEL_ID env | Some m \<Rightarrow> m));
          stabilityValue =
            (if selectedModel = ''eleven_v3'' then normalizeStabilityForV3 stability
             else clamp stability (Finite 0) (Finite 1))
      in \<lparr> req_url = ELEVENLABS_BASE_URL @ ''/text-to-speech/'' @ voiceId,
           req_method = ''POST'',
           req_headers =
             [(''Accept'', ''audio/mpeg''), (''Content-Type'', ''application/json''),
              (''xi-api-key'', ELEVENLABS_API_KEY env)],
           req_body = JObj (json_props
             [(''text'', Some (JStr text)),
              (''model_id'', Some (JStr selectedModel)),
              (''language_code'',
                 if languageCode = Some ''auto'' then None else map_option JStr languageCode),
              (''voice_settings'', Some (JObj (json_props
                 [(''stability'', Some (json_of_number stabilityValue)),
                  (''similarity_boost'',
                     Some (json_of_number (clamp similarityBoost (Finite 0) (Finite 1)))),
                  (''style'',
                     (case styleExaggeration of
                        Some v \<Rightarrow> Some (json_of_number (clamp v (Finite 0) (Finite 1)))
                      | None \<Rightarrow> None)),
                  (''use_speaker_boost'', Some (JBool useSpeakerBoost))]))),
              (''optimize_streaming_latency'', Some (json_of_number optimizeStreamingLatency)),
              (''output_format'', Some (JStr outputFormat))]) \<rparr>)"

text \<open>The request of the streaming path, \<^verbatim>\<open>synthesizeSpeechStream\<close>.\<close>

definition synthesizeSpeechStream_request :: "ServerEnv \<Rightarrow> SynthesisInput \<Rightarrow> fetch_request" where
  "synthesizeSpeechStream_request env input =
     (let text = SynthesisInput.text input;
          voiceId = voiceId input;
          languageCode = languageCode input;
          modelId = modelId input;
          stability = (case stability input of None \<Rightarrow> Finite 0.5 | Some v \<Rightarrow> v);
          similarityBoost = (case similarityBoost input of None \<Rightarrow> Finite 0.8 | Some v \<Rightarrow> v);
          styleExaggeration = styleExaggeration input;
          useSpeakerBoost = (case useSpeakerBoost input of None \<Rightarrow> True | Some b \<Rightarrow> b);
          optimizeStreamingLatency =
            (case optimizeStreamingLatency input of
               Some l \<Rightarrow> l
             | None \<Rightarrow> (case ELEVENLABS_OPTIMIZE_LATENCY env of Some l \<Rightarrow> l | None \<Rightarrow> Finite 0));
          outputFormat = (case outputFormat input of None \<Rightarrow> ''mp3_44100_128'' | Some f \<Rightarrow> f);
          selectedModel =
            selectModelForLanguage languageCode
              (Some (case modelId of None \<Rightarrow> ELEVENLABS_MODEL_ID env | Some m \<Rightarrow> m));
          stabilityValue =
            (if selectedModel = ''eleven_v3'' then normalizeStabilityForV3 stability
             else clamp stability (Finite 0) (Finite 1))
      in \<lparr> req_url = ELEVENLABS_BASE_URL @ ''/text-to-speech/'' @ voiceId @ ''/stream'',
           req_method = ''POST'',
           req_headers =
             [(''Accept'', ''audio/mpeg''), (''Content-Type'', ''application/json''),
              (''xi-api-key'', ELEVENLABS_API_KEY env)],
           req_body = JObj (json_props
             [(''text'', Some (JStr text)),
              (''model_id'', Some (JStr selectedModel)),
              (''language_code'',
                 if languageCode = Some ''auto'' then None else map_option JStr languageCode),
              (''voice_settings'', Some (JObj (json_props
                 [(''stability'', Some (json_of_number stabilityValue)),
                  (''similarity_boost'',
                     Some (json_of_number (clamp similarityBoost (Finite 0) (Finite 1)))),
                  (''style'',
                     (case styleExaggeration of
                        Some v \<Rightarrow> Some (json_of_number (clamp v (Finite 0) (Finite 1)))
                      | None \<Rightarrow> None)),
                  (''use_speaker_boost'', Some (JBool useSpeakerBoost))]))),
              (''optimize_streaming_latency'', Some (json_of_number optimizeStreamingLatency)),
              (''output_format'', Some (JStr outputFormat))]) \<rparr>)"

text \<open>
  The two client functions, with \<^verbatim>\<open>fetch\<close> as a parameter: it either rejects or gives a
  response. A thrown error is \<open>Inl\<close>.
\<close>

definition synthesizeSpeech ::
  "ServerEnv \<Rightarrow> (fetch_request \<Rightarrow> thrown + fetch_response) \<Rightarrow> SynthesisInput
     \<Rightarrow> thrown + nat list" where
  "synthesizeSpeech env fetch input =
     (case fetch (synthesizeSpeech_request env input) of
        Inl e \<Rightarrow> Inl e
      | Inr response \<Rightarrow>
          if \<not> res_ok response then
            Inl (Error (''Failed to synthesize speech ('' @ string_of_nat (res_status response)
                   @ '' '' @ res_statusText response @ ''): ''
                   @ (case res_json response of Some t \<Rightarrow> t | None \<Rightarrow> ''unknown error'')))
          else res_arrayBuffer response)"

definition synthesizeSpeechStream ::
  "ServerEnv \<Rightarrow> (fetch_request \<Rightarrow> thrown + fetch_response) \<Rightarrow> SynthesisInput
     \<Rightarrow> thrown + nat list" where
  "synthesizeSpeechStream env fetch input =
     (case fetch (synthesizeSpeechStream_request env input) of
        Inl e \<Rightarrow> Inl e
      | Inr response \<Rightarrow>
          if \<not> res_ok response then
            Inl (Error (''Failed to synthesize speech ('' @ string_of_nat (res_status response)
                   @ '' '' @ res_statusText response @ ''): ''
                   @ (case res_json response of Some t \<Rightarrow> t | None \<Rightarrow> ''unknown error'')))
          else (case res_body response of
                  None \<Rightarrow> Inl (Error ''Response body is null'')
                | Some stream \<Rightarrow> Inr stream))"

text \<open>What a request tells the provider: the model, and one of the voice settings.\<close>

definition sent_model :: "fetch_request \<Rightarrow> json option" where
  "sent_model r = json_path [''model_id''] (req_body r)"

definition sent_setting :: "string \<Rightarrow> fetch_request \<Rightarrow> json option" where
  "sent_setting k r = json_path [''voice_settings'', k] (req_body r)"

section \<open>lib/languages.ts\<close>

text \<open>
  \<^verbatim>\<open>LANGUAGE_OPTIONS\<close>, each option as (code, label); the sample sentences are
  display text that no function here reads.
\<close>

definition LANGUAGE_OPTIONS :: "(string \<times> string) list" where
  "LANGUAGE_OPTIONS =
     [(''auto'', ''Auto detect''), (''he'', ''Hebrew''), (''en'', ''English''),
      (''es'', ''Spanish''), (''fr'', ''French''), (''de'', ''German''),
      (''it'', ''Italian''), (''pt'', ''Portuguese''), (''ru'', ''Russian''),
      (''ja'', ''Japanese''), (''ko'', ''Korean''), (''zh'', ''Chinese''),
      (''ar'', ''Arabic''), (''hi'', ''Hindi''), (''cs'', ''Czech''),
      (''da'', ''Danish''), (''fi'', ''Finnish''), (''hu'', ''Hungarian''),
      (''nl'', ''Dutch''), (''pl'', ''Polish''), (''sv'', ''Swedish''),
      (''tr'', ''Turkish''), (''uk'', ''Ukrainian'')]"

definition NAME_TO_CODE_entries :: "(string \<times> string) list" where
  "NAME_TO_CODE_entries =
     [(''auto'', ''auto''),
      (''he'', ''he''), (''hebrew'', ''he''), (''hebrew (modern)'', ''he''),
      (''en'', ''en''), (''english'', ''en''), (''american english'', ''en''),
      (''british english'', ''en''),
      (''es'', ''es''), (''spanish'', ''es''), (''castilian spanish'', ''es''),
      (''latin american spanish'', ''es''),
      (''fr'', ''fr''), (''french'', ''fr''),
      (''de'', ''de''), (''german'', ''de''),
      (''it'', ''it''), (''italian'', ''it''),
      (''pt'', ''pt''), (''portuguese'', ''pt''), (''br portuguese'', ''pt''),
      (''ru'', ''ru''), (''russian'', ''ru''),
      (''ja'', ''ja''), (''japanese'', ''ja''),
      (''ko'', ''ko''), (''korean'', ''ko''),
      (''zh'', ''zh''), (''chinese'', ''zh''), (''mandarin chinese'', ''zh''),
      (''ar'', ''ar''), (''arabic'', ''ar''),
      (''hi'', ''hi''), (''hindi'', ''hi''),
      (''cs'', ''cs''), (''czech'', ''cs''),
      (''da'', ''da''), (''danish'', ''da''),
      (''fi'', ''fi''), (''finnish'', ''fi''),
      (''hu'', ''hu''), (''hungarian'', ''hu''),
      (''nl'', ''nl''), (''dutch'', ''nl''),
      (''pl'', ''pl''), (''polish'', ''pl''),
      (''sv'', ''sv''), (''swedish'', ''sv''),
      (''tr'', ''tr''), (''turkish'', ''tr''),
      (''uk'', ''uk''), (''ukrainian'', ''uk'')]"

text \<open>
  A label that comes from the provider can hold any character, so this module works on
  lists of UTF-16 code units, which is what \<^verbatim>\<open>trim\<close>, \<^verbatim>\<open>slice\<close>, the regular expression
  and the keys of a \<^verbatim>\<open>Map\<close> see. \<open>units\<close> gives the code units of an ASCII literal.
\<close>

definition units :: "string \<Rightarrow> nat list" where
  "units s = map of_char s"

text \<open>\<^verbatim>\<open>new Map(entries)\<close> sets the entries one after the other.\<close>

definition NAME_TO_CODE :: "nat list \<rightharpoonup> nat list" where
  "NAME_TO_CODE =
     fold (\<lambda>(k, v) m. m(units k \<mapsto> units v)) NAME_TO_CODE_entries Map.empty"

text \<open>The keys of the table, in the order of the entries.\<close>

definition NAME_TO_CODE_keys :: "nat list list" where
  "NAME_TO_CODE_keys = map (\<lambda>(k, v). units k) NAME_TO_CODE_entries"

text \<open>
  \<^verbatim>\<open>trim\<close> removes, at both ends, the white space and line terminators of ECMAScript:
  tab, line feed, vertical tab, form feed, carriage return, space, no-break space, the
  Unicode space separators, line and paragraph separator, and the byte order mark.
\<close>

definition isWhiteSpace :: "nat \<Rightarrow> bool" where
  "isWhiteSpace c =
     (c \<in> set [0x0009, 0x000A, 0x000B, 0x000C, 0x000D, 0x0020, 0x00A0, 0x1680,
               0x2000, 0x2001, 0x2002, 0x2003, 0x2004, 0x2005, 0x2006, 0x2007, 0x2008,
               0x2009, 0x200A, 0x2028, 0x2029, 0x202F, 0x205F, 0x3000, 0xFEFF])"

definition trim :: "nat list \<Rightarrow> nat list" where
  "trim s = rev (dropWhile isWhiteSpace (rev (dropWhile isWhiteSpace s)))"

text \<open>
  \<^verbatim>\<open>toLowerCase\<close> is the case mapping of Unicode, which the engine brings: it is a
  parameter of \<open>resolveLanguageCode\<close> below. On text that is all ASCII it is the function
  \<open>ascii_toLowerCase\<close>, and that is all the theorems assume of it.
\<close>

definition ascii_toLowerCase :: "nat list \<Rightarrow> nat list" where
  "ascii_toLowerCase s = map (\<lambda>c. if 0x41 \<le> c \<and> c \<le> 0x5A then c + 0x20 else c) s"

definition is_ascii :: "nat list \<Rightarrow> bool" where
  "is_ascii s = list_all (\<lambda>c. c < 0x80) s"

text \<open>
  The regular expression \<^verbatim>\<open>/^[a-z]{2}(?:(?:-|_)[a-z]{2})?$/i\<close>: two letters, or two
  letters, a hyphen or underscore, and two letters. The flag makes the class match both
  cases of the ASCII letters, and no code unit beyond them.
\<close>

definition is_az_i :: "nat \<Rightarrow> bool" where
  "is_az_i c = ((0x61 \<le> c \<and> c \<le> 0x7A) \<or> (0x41 \<le> c \<and> c \<le> 0x5A))"

fun isoMatch :: "nat list \<Rightarrow> bool" where
  "isoMatch [a, b] = (is_az_i a \<and> is_az_i b)"
| "isoMatch [a, b, s, c, d] =
     (is_az_i a \<and> is_az_i b \<and> (s = 0x2D \<or> s = 0x5F) \<and> is_az_i c \<and> is_az_i d)"
| "isoMatch _ = False"

text \<open>A string that is present and not empty is truthy.\<close>

fun truthy :: "'a list option \<Rightarrow> bool" where
  "truthy None = False"
| "truthy (Some s) = (s \<noteq> [])"

definition resolveLanguageCode ::
  "(nat list \<Rightarrow> nat list) \<Rightarrow> nat list option \<Rightarrow> nat list option" where
  "resolveLanguageCode toLowerCase input =
     (if \<not> truthy input then None
      else let normalized = toLowerCase (trim (the input)) in
        if normalized = [] then None
        else let direct = NAME_TO_CODE normalized in
          if truthy direct then direct
          else if isoMatch normalized then
            (case NAME_TO_CODE (take 2 normalized) of
               Some c \<Rightarrow> Some c
             | None \<Rightarrow> Some (take 2 normalized))
          else None)"

section \<open>lib/schemas.ts: the validation layer\<close>

text \<open>
  The schema is built with the zod library. Its parsers are modelled as functions from the
  value of a property (\<open>None\<close> when the property is missing) to the messages of the
  issues found or to the parsed value. Where the schema gives no message of its own, the
  message is the one of zod's default error map. A string's \<^verbatim>\<open>length\<close> is its number of
  code units.
\<close>

record ZodIssue =
  issue_path :: "string list"
  issue_message :: string

definition json_type :: "json \<Rightarrow> string" where
  "json_type j =
     (case j of JNull \<Rightarrow> ''null'' | JBool b \<Rightarrow> ''boolean'' | JNum r \<Rightarrow> ''number''
      | JStr s \<Rightarrow> ''string'' | JArr xs \<Rightarrow> ''array'' | JObj ps \<Rightarrow> ''object'')"

definition zod_invalid_type :: "string \<Rightarrow> json option \<Rightarrow> string" where
  "zod_invalid_type expected v =
     (case v of
        None \<Rightarrow> ''Required''
      | Some j \<Rightarrow> ''Expected '' @ expected @ '', received '' @ json_type j)"

datatype string_check = StrMin nat string | StrMax nat string

fun string_check_issues :: "string \<Rightarrow> string_check \<Rightarrow> string list" where
  "string_check_issues s (StrMin n m) = (if length s < n then [m] else [])"
| "string_check_issues s (StrMax n m) = (if length s > n then [m] else [])"

definition z_string :: "string_check list \<Rightarrow> json option \<Rightarrow> string list + string" where
  "z_string checks v =
     (case v of
        Some (JStr s) \<Rightarrow>
          (let ms = concat (map (string_check_issues s) checks)
           in if ms = [] then Inr s else Inl ms)
      | _ \<Rightarrow> Inl [zod_invalid_type ''string'' v])"

datatype number_check = NumMin nat | NumMax nat

fun number_check_issues :: "real \<Rightarrow> number_check \<Rightarrow> string list" where
  "number_check_issues r (NumMin n) =
     (if r < real n then [''Number must be greater than or equal to '' @ string_of_nat n]
      else [])"
| "number_check_issues r (NumMax n) =
     (if r > real n then [''Number must be less than or equal to '' @ string_of_nat n]
      else [])"

definition z_number :: "number_check list \<Rightarrow> json option \<Rightarrow> string list + real" where
  "z_number checks v =
     (case v of
        Some (JNum r) \<Rightarrow>
          (let ms = concat (map (number_check_issues r) checks)
           in if ms = [] then Inr r else Inl ms)
      | _ \<Rightarrow> Inl [zod_invalid_type ''number'' v])"

definition z_optional ::
  "(json option \<Rightarrow> string list + 'a) \<Rightarrow> json option \<Rightarrow> string list + 'a option" where
  "z_optional inner v =
     (case v of
        None \<Rightarrow> Inr None
      | Some j \<Rightarrow> (case inner (Some j) of Inl ms \<Rightarrow> Inl ms | Inr x \<Rightarrow> Inr (Some x)))"

text \<open>\<^verbatim>\<open>z.union\<close> of number literals: a number equal to one of them, else one issue.\<close>

definition z_union_literals :: "nat list \<Rightarrow> json option \<Rightarrow> string list + real" where
  "z_union_literals lits v =
     (case v of
        Some (JNum r) \<Rightarrow> if r \<in> set (map real lits) then Inr r else Inl [''Invalid input'']
      | _ \<Rightarrow> Inl [''Invalid input''])"

text \<open>The \<^verbatim>\<open>language\<close> property: optional string, then the transform, then the refinement.\<close>

definition language_schema :: "json option \<Rightarrow> string list + string option" where
  "language_schema v =
     (case z_optional (z_string []) v of
        Inl ms \<Rightarrow> Inl ms
      | Inr parsed \<Rightarrow>
          (let value = (if \<not> truthy parsed then None else parsed)
           in if \<not> truthy value \<or> value = Some ''auto''
                 \<or> list_ex (\<lambda>option. Some (fst option) = value) LANGUAGE_OPTIONS
              then Inr value
              else Inl [''Unsupported language selected'']))"

record SynthesizePayload =
  payload_text :: string
  payload_voiceId :: string
  payload_language :: "string option"
  payload_stability :: "real option"
  payload_similarityBoost :: "real option"
  payload_styleExaggeration :: "real option"
  payload_optimizeStreamingLatency :: "real option"
  payload_modelId :: "string option"

text \<open>
  An object parser runs the parsers of its properties in the order of the shape and keeps
  every issue, each under the name of its property.
\<close>

definition at_key :: "string \<Rightarrow> string list + 'a \<Rightarrow> ZodIssue list + 'a" where
  "at_key k r =
     (case r of
        Inl ms \<Rightarrow> Inl (map (\<lambda>m. \<lparr> issue_path = [k], issue_message = m \<rparr>) ms)
      | Inr x \<Rightarrow> Inr x)"

fun z_and :: "ZodIssue list + ('a \<Rightarrow> 'b) \<Rightarrow> ZodIssue list + 'a \<Rightarrow> ZodIssue list + 'b" where
  "z_and (Inr f) (Inr x) = Inr (f x)"
| "z_and (Inr f) (Inl e) = Inl e"
| "z_and (Inl e) (Inr x) = Inl e"
| "z_and (Inl e) (Inl e') = Inl (e @ e')"

definition mk_payload ::
  "string \<Rightarrow> string \<Rightarrow> string option \<Rightarrow> real option \<Rightarrow> real option \<Rightarrow> real option
     \<Rightarrow> real option \<Rightarrow> string option \<Rightarrow> SynthesizePayload" where
  "mk_payload t v l s sb se osl m =
     \<lparr> payload_text = t, payload_voiceId = v, payload_language = l, payload_stability = s,
       payload_similarityBoost = sb, payload_styleExaggeration = se,
       payload_optimizeStreamingLatency = osl, payload_modelId = m \<rparr>"

definition synthesizeSchema_safeParse :: "json \<Rightarrow> ZodIssue list + SynthesizePayload" where
  "synthesizeSchema_safeParse j =
     (case j of
        JObj ps \<Rightarrow>
          z_and (z_and (z_and (z_and (z_and (z_and (z_and (z_and (Inr mk_payload)
            (at_key ''text''
               (z_string [StrMin 1 ''Text is required'',
                          StrMax 5000 ''Text must be shorter than 5,000 characters'']
                  (json_get ''text'' j))))
            (at_key ''voiceId''
               (z_string [StrMin 1 ''Voice is required''] (json_get ''voiceId'' j))))
            (at_key ''language'' (language_schema (json_get ''language'' j))))
            (at_key ''stability''
               (z_optional (z_number [NumMin 0, NumMax 1]) (json_get ''stability'' j))))
            (at_key ''similarityBoost''
               (z_optional (z_number [NumMin 0, NumMax 1]) (json_get ''similarityBoost'' j))))
            (at_key ''styleExaggeration''
               (z_optional (z_number [NumMin 0, NumMax 1]) (json_get ''styleExaggeration'' j))))
            (at_key ''optimizeStreamingLatency''
               (z_optional (z_union_literals [0, 1, 2])
                  (json_get ''optimizeStreamingLatency'' j))))
            (at_key ''modelId'' (z_optional (z_string []) (json_get ''modelId'' j)))
      | _ \<Rightarrow> Inl [\<lparr> issue_path = [], issue_message = zod_invalid_type ''object'' (Some j) \<rparr>])"

text \<open>
  \<^verbatim>\<open>ZodError.flatten()\<close>: an issue with an empty path goes to \<open>formErrors\<close>, any other
  under the first element of its path. The property names of this schema are not
  numeric, so \<^verbatim>\<open>Object.values\<close> lists \<open>fieldErrors\<close> in the order the keys were added.
\<close>

record flattened =
  formErrors :: "string list"
  fieldErrors :: "(string \<times> string list) list"

fun add_fieldError ::
  "string \<Rightarrow> string \<Rightarrow> (string \<times> string list) list \<Rightarrow> (string \<times> string list) list" where
  "add_fieldError k m [] = [(k, [m])]"
| "add_fieldError k m ((k', ms) # rest) =
     (if k = k' then (k', ms @ [m]) # rest else (k', ms) # add_fieldError k m rest)"

fun flatten_into :: "ZodIssue list \<Rightarrow> flattened \<Rightarrow> flattened" where
  "flatten_into [] f = f"
| "flatten_into (i # issues) f =
     flatten_into issues
       (case issue_path i of
          [] \<Rightarrow> f\<lparr> formErrors := formErrors f @ [issue_message i] \<rparr>
        | k # ks \<Rightarrow> f\<lparr> fieldErrors := add_fieldError k (issue_message i) (fieldErrors f) \<rparr>)"

definition flatten :: "ZodIssue list \<Rightarrow> flattened" where
  "flatten issues = flatten_into issues \<lparr> formErrors = [], fieldErrors = [] \<rparr>"

section \<open>The synthesis route (src/unnamed/part_002, and its variant part_001)\<close>

definition getValidationMessage :: "ZodIssue list \<Rightarrow> string" where
  "getValidationMessage error =
     (let flattened = flatten error;
          fieldErrorEntries = concat (map snd (fieldErrors flattened));
          primaryFieldError = find (\<lambda>msg. True) fieldErrorEntries
      in if truthy primaryFieldError then the primaryFieldError
         else (case find (\<lambda>msg. True) (formErrors flattened) of
                 Some formError \<Rightarrow> formError
               | None \<Rightarrow> ''Please review the submitted values.''))"

datatype response_body = JsonBody json | StreamBody "nat list"

record http_response =
  resp_status :: nat
  resp_headers :: "(string \<times> string) list"
  resp_body :: response_body

text \<open>\<^verbatim>\<open>NextResponse.json(value, { status })\<close>.\<close>

definition NextResponse_json :: "json \<Rightarrow> nat \<Rightarrow> http_response" where
  "NextResponse_json value st =
     \<lparr> resp_status = st, resp_headers = [(''content-type'', ''application/json'')],
       resp_body = JsonBody value \<rparr>"

definition input_of_payload :: "SynthesizePayload \<Rightarrow> SynthesisInput" where
  "input_of_payload payload =
     \<lparr> SynthesisInput.text = payload_text payload,
       voiceId = payload_voiceId payload,
       languageCode = payload_language payload,
       modelId = payload_modelId payload,
       stability = map_option Finite (payload_stability payload),
       similarityBoost = map_option Finite (payload_similarityBoost payload),
       styleExaggeration = map_option Finite (payload_styleExaggeration payload),
       useSpeakerBoost = None,
       optimizeStreamingLatency = map_option Finite (payload_optimizeStreamingLatency payload),
       outputFormat = None \<rparr>"

text \<open>
  \<^verbatim>\<open>POST\<close> of part_002. The request body is \<open>None\<close> when \<^verbatim>\<open>request.json()\<close> throws. The
  first parameter is the imported \<^verbatim>\<open>synthesizeSpeechStream\<close>, as the route's tests replace
  it.
\<close>

definition POST ::
  "(SynthesisInput \<Rightarrow> thrown + nat list) \<Rightarrow> json option \<Rightarrow> http_response" where
  "POST synthesizeSpeechStream' request_json =
     (case request_json of
        None \<Rightarrow> NextResponse_json (JObj [(''error'', JStr ''Invalid JSON payload'')]) 400
      | Some json \<Rightarrow>
          (case synthesizeSchema_safeParse json of
             Inl error \<Rightarrow>
               (let message = getValidationMessage error
                in NextResponse_json (JObj [(''error'', JStr (''Invalid input: '' @ message))]) 422)
           | Inr payload \<Rightarrow>
               (case synthesizeSpeechStream' (input_of_payload payload) of
                  Inr audioStream \<Rightarrow>
                    \<lparr> resp_status = 200,
                      resp_headers =
                        [(''Content-Type'', ''audio/mpeg''), (''Transfer-Encoding'', ''chunked'')],
                      resp_body = StreamBody audioStream \<rparr>
                | Inl error \<Rightarrow>
                    NextResponse_json
                      (JObj [(''error'', JStr ''Synthesis service failed. Please try again.'')])
                      502)))"

text \<open>What \<^verbatim>\<open>JSON.stringify\<close> writes for the object \<^verbatim>\<open>flatten()\<close> returns.\<close>

definition json_of_flattened :: "flattened \<Rightarrow> json" where
  "json_of_flattened f =
     JObj [(''formErrors'', JArr (map JStr (formErrors f))),
           (''fieldErrors'', JObj (map (\<lambda>(k, ms). (k, JArr (map JStr ms))) (fieldErrors f)))]"

text \<open>\<^verbatim>\<open>POST\<close> of part_001, the other copy of the route handler.\<close>

definition POST_part_001 ::
  "(SynthesisInput \<Rightarrow> thrown + nat list) \<Rightarrow> json option \<Rightarrow> http_response" where
  "POST_part_001 synthesizeSpeechStream' request_json =
     (case request_json of
        None \<Rightarrow> NextResponse_json (JObj [(''error'', JStr ''Invalid JSON payload'')]) 400
      | Some json \<Rightarrow>
          (case synthesizeSchema_safeParse json of
             Inl error \<Rightarrow>
               NextResponse_json (JObj [(''error'', json_of_flattened (flatten error))]) 422
           | Inr payload \<Rightarrow>
               (case synthesizeSpeechStream' (input_of_payload payload) of
                  Inr audioStream \<Rightarrow>
                    \<lparr> resp_status = 200,
                      resp_headers =
                        [(''Content-Type'', ''audio/mpeg''), (''Transfer-Encoding'', ''chunked'')],
                      resp_body = StreamBody audioStream \<rparr>
                | Inl error \<Rightarrow>
                    (let message = (if instanceof_Error error then error_message error
                                    else ''Failed to synthesize speech'')
                     in NextResponse_json (JObj [(''error'', JStr message)]) 502))))"

section \<open>app/api/voices/route.ts\<close>

text \<open>\<^verbatim>\<open>details.includes(sub)\<close>.\<close>

fun startsWith :: "string \<Rightarrow> string \<Rightarrow> bool" where
  "startsWith s [] = True"
| "startsWith [] (c # cs) = False"
| "startsWith (x # xs) (c # cs) = (x = c \<and> startsWith xs cs)"

fun String_includes :: "string \<Rightarrow> string \<Rightarrow> bool" where
  "String_includes [] sub = (sub = [])"
| "String_includes (x # xs) sub = (startsWith (x # xs) sub \<or> String_includes xs sub)"

text \<open>
  \<^verbatim>\<open>GET\<close>, with the outcome of \<^verbatim>\<open>fetchVoices()\<close> as its parameter: the list of voices,
  already as JSON, or the value thrown.
\<close>

definition GET :: "thrown + json \<Rightarrow> http_response" where
  "GET fetchVoices_result =
     (case fetchVoices_result of
        Inr voices \<Rightarrow> NextResponse_json (JObj [(''voices'', voices)]) 200
      | Inl error \<Rightarrow>
          (let details = (if instanceof_Error error then error_message error
                          else ''Unknown error'');
               userFriendlyMessage =
                 (if String_includes details ''missing_permissions''
                  then ''Your ElevenLabs API key is missing required permissions. Generate a key with voices_read access.''
                  else if String_includes details ''401''
                  then ''Invalid or unauthorized ElevenLabs API key. Check your key.''
                  else ''Unable to load ElevenLabs voices. Verify your API key and network connection.'')
           in NextResponse_json (JObj [(''error'', JStr userFriendlyMessage)]) 500))"

text \<open>The message \<^verbatim>\<open>fetchVoices\<close> throws with when the provider's status is not a success.\<close>

definition fetchVoices_failure :: "fetch_response \<Rightarrow> thrown" where
  "fetchVoices_failure response =
     Error (''Failed to fetch voices ('' @ string_of_nat (res_status response)
        @ '' '' @ res_statusText response @ ''): ''
        @ (case res_json response of Some t \<Rightarrow> t | None \<Rightarrow> ''unknown error''))"

section \<open>hooks/useAudioPlayer.ts\<close>

datatype PlayResult = Played | Blocked | Idle

text \<open>
  The audio element: its source, and what its methods do when called. \<open>el_load\<close> and
  \<open>el_play\<close> are \<open>None\<close> when the call succeeds (for \<^verbatim>\<open>play\<close>: the promise resolves) and
  hold the thrown value otherwise.
\<close>

record audio_element =
  el_src :: string
  el_load :: "thrown option"
  el_play :: "thrown option"

text \<open>A line of \<^verbatim>\<open>console.warn\<close>: the text, and the value printed after it, if any.\<close>

type_synonym warning = "string \<times> thrown option"

text \<open>\<^verbatim>\<open>try { body } catch (error) { handler }\<close>.\<close>

definition try_catch :: "(thrown + 'a) \<Rightarrow> (thrown \<Rightarrow> thrown + 'a) \<Rightarrow> thrown + 'a" where
  "try_catch body handler = (case body of Inl error \<Rightarrow> handler error | Inr v \<Rightarrow> Inr v)"

definition await_play :: "audio_element \<Rightarrow> thrown + unit" where
  "await_play element = (case el_play element of None \<Rightarrow> Inr () | Some error \<Rightarrow> Inl error)"

definition call_load :: "audio_element \<Rightarrow> thrown + unit" where
  "call_load element = (case el_load element of None \<Rightarrow> Inr () | Some error \<Rightarrow> Inl error)"

definition playElement :: "audio_element \<Rightarrow> thrown + (PlayResult \<times> warning list)" where
  "playElement element =
     try_catch
       (case await_play element of Inl error \<Rightarrow> Inl error | Inr u \<Rightarrow> Inr (Played, []))
       (\<lambda>error.
          if (case error of
                DOMException name msg \<Rightarrow> name = ''NotAllowedError'' \<or> name = ''AbortError''
              | _ \<Rightarrow> False)
          then Inr (Blocked, [(''[audio] Autoplay blocked by browser policy.'', None)])
          else Inr (Blocked, [(''[audio] Failed to play audio element.'', Some error)]))"

text \<open>
  \<^verbatim>\<open>play\<close>, that is \<^verbatim>\<open>setSourceAndPlay\<close>: \<open>audioRef\<close> is what \<^verbatim>\<open>audioRef.current\<close> holds.
  The result is the outcome and the element as it is left.
\<close>

definition setSourceAndPlay ::
  "audio_element option \<Rightarrow> string
     \<Rightarrow> thrown + ((PlayResult \<times> warning list) \<times> audio_element option)" where
  "setSourceAndPlay audioRef src =
     (case audioRef of
        None \<Rightarrow> Inr ((Idle, []), None)
      | Some element0 \<Rightarrow>
          (let element = (if el_src element0 \<noteq> src then element0\<lparr> el_src := src \<rparr> else element0)
           in case try_catch (call_load element) (\<lambda>error. Inr ()) of
                Inl error \<Rightarrow> Inl error
              | Inr u \<Rightarrow>
                  (case playElement element of
                     Inl error \<Rightarrow> Inl error
                   | Inr r \<Rightarrow> Inr (r, Some element))))"

text \<open>What the caller of \<^verbatim>\<open>play\<close> is given: the outcome, with the warnings printed.\<close>

definition play :: "audio_element option \<Rightarrow> string \<Rightarrow> thrown + (PlayResult \<times> warning list)" where
  "play audioRef src = map_sum id fst (setSourceAndPlay audioRef src)"

section \<open>The studio component (src/unnamed/part_000)\<close>

definition CHAR_LIMIT_HEBREW :: nat where
  "CHAR_LIMIT_HEBREW = 3000"

definition CHAR_LIMIT_OTHER :: nat where
  "CHAR_LIMIT_OTHER = 30000"

definition getCharacterLimit :: "string \<Rightarrow> nat" where
  "getCharacterLimit language = (if language = ''he'' then CHAR_LIMIT_HEBREW else CHAR_LIMIT_OTHER)"

definition getModelName :: "string \<Rightarrow> string" where
  "getModelName language = (if language = ''he'' then ''Eleven v3'' else ''Turbo v2.5'')"

record VoiceOption =
  voice_id :: string
  voice_name :: string
  voice_languageCode :: "string option"

record HistoryItem =
  item_id :: string
  "text" :: string
  voiceName :: string
  createdAt :: string
  audioSrc :: string

definition MAX_HISTORY :: nat where
  "MAX_HISTORY = 5"

definition AUDIO_BLOCKED_MESSAGE :: string where
  "AUDIO_BLOCKED_MESSAGE = ''Audio ready. Tap play to listen.''"

text \<open>The state of the component that \<^verbatim>\<open>handleSubmit\<close> writes.\<close>

record studio =
  st_audioSrc :: "string option"
  st_history :: "HistoryItem list"
  st_error :: "string option"
  st_isLoading :: bool

text \<open>
  One submission: the form as it stands when the handler runs, and what the environment
  answers. \<open>sub_render\<close> is the object URL of the audio when the request succeeds and the
  message of the error thrown inside the \<^verbatim>\<open>try\<close> block otherwise; \<open>sub_playback\<close> is what
  \<^verbatim>\<open>play\<close> reports; \<open>sub_uuid\<close> and \<open>sub_now\<close> are the values of \<^verbatim>\<open>crypto.randomUUID()\<close> and
  \<^verbatim>\<open>new Date().toISOString()\<close>.
\<close>

record submission =
  sub_text :: string
  sub_language :: string
  sub_voices :: "VoiceOption list"
  sub_selectedVoiceId :: string
  sub_render :: "string + string"
  sub_playback :: PlayResult
  sub_uuid :: string
  sub_now :: string

definition handlePlaybackStatus :: "PlayResult \<Rightarrow> studio \<Rightarrow> studio" where
  "handlePlaybackStatus status s =
     (if status = Blocked then s\<lparr> st_error := Some AUDIO_BLOCKED_MESSAGE \<rparr>
      else if status = Played then s\<lparr> st_error := None \<rparr>
      else s)"

text \<open>The limit as \<^verbatim>\<open>toLocaleString()\<close> prints it in an English locale.\<close>

definition limit_toLocaleString :: "nat \<Rightarrow> string" where
  "limit_toLocaleString n =
     (if n < 1000 then string_of_nat n
      else string_of_nat (n div 1000) @ '','' @ drop 1 (string_of_nat (1000 + n mod 1000)))"

definition handleSubmit :: "submission \<Rightarrow> studio \<Rightarrow> studio" where
  "handleSubmit sub s =
     (let currentCharLimit = getCharacterLimit (sub_language sub);
          currentModel = getModelName (sub_language sub)
      in if sub_selectedVoiceId sub = [] then s\<lparr> st_error := Some ''Please select a voice first.'' \<rparr>
         else if length (sub_text sub) > currentCharLimit then
           s\<lparr> st_error := Some (''Text is too long for '' @ currentModel @ ''. Maximum ''
                 @ limit_toLocaleString currentCharLimit @ '' characters allowed.'') \<rparr>
         else
           (let s1 = s\<lparr> st_isLoading := True, st_error := None \<rparr>;
                s2 = (case sub_render sub of
                        Inl message \<Rightarrow> s1\<lparr> st_error := Some message \<rparr>
                      | Inr dataUrl \<Rightarrow>
                          (let s3 = handlePlaybackStatus (sub_playback sub)
                                      (s1\<lparr> st_audioSrc := Some dataUrl \<rparr>);
                               voiceName =
                                 (case find (\<lambda>voice. voice_id voice = sub_selectedVoiceId sub)
                                         (sub_voices sub) of
                                    Some voice \<Rightarrow> voice_name voice
                                  | None \<Rightarrow> ''Unknown'');
                               entry = \<lparr> item_id = sub_uuid sub,
                                         HistoryItem.text = sub_text sub,
                                         voiceName = voiceName,
                                         createdAt = sub_now sub,
                                         audioSrc = dataUrl \<rparr>
                           in s3\<lparr> st_history := take MAX_HISTORY (entry # st_history s3) \<rparr>))
            in s2\<lparr> st_isLoading := False \<rparr>))"

text \<open>The component starts with an empty history; submissions run one after the other.\<close>

definition initial_studio :: studio where
  "initial_studio =
     \<lparr> st_audioSrc = None, st_history = [], st_error = None, st_isLoading = False \<rparr>"

definition run_submissions :: "submission list \<Rightarrow> studio \<Rightarrow> studio" where
  "run_submissions subs s = fold handleSubmit subs s"

section \<open>The policies as the specification words them, and example inputs\<close>

text \<open>\<^verbatim>\<open>modelId ?? env.ELEVENLABS_MODEL_ID\<close>, the second argument of the selection.\<close>

definition requested_model :: "ServerEnv \<Rightarrow> SynthesisInput \<Rightarrow> string" where
  "requested_model env input =
     (case modelId input of None \<Rightarrow> ELEVENLABS_MODEL_ID env | Some m \<Rightarrow> m)"

text \<open>
  The selection as the specification words it: the forced model for Hebrew, else the
  caller's model id when there is one, else the faster default.
\<close>

definition spec_selected_model :: "string option \<Rightarrow> string option \<Rightarrow> string" where
  "spec_selected_model language callerModelId =
     (if language = Some ''he'' then ''eleven_v3''
      else (case callerModelId of Some m \<Rightarrow> m | None \<Rightarrow> ''eleven_turbo_v2_5''))"

text \<open>A value clamped to the unit interval, by comparisons.\<close>

definition spec_clamp_unit :: "number \<Rightarrow> number" where
  "spec_clamp_unit s =
     (if js_lt s (Finite 0) then Finite 0 else if js_lt (Finite 1) s then Finite 1 else s)"

text \<open>A property of the body that is present and is a number between 0 and 1.\<close>

definition in_unit_interval :: "json option \<Rightarrow> bool" where
  "in_unit_interval v = (case v of Some (JNum r) \<Rightarrow> 0 \<le> r \<and> r \<le> 1 | _ \<Rightarrow> False)"

definition example_env :: ServerEnv where
  "example_env =
     \<lparr> ELEVENLABS_API_KEY = ''xi-key'', ELEVENLABS_MODEL_ID = ''eleven_multilingual_v2'',
       ELEVENLABS_OPTIMIZE_LATENCY = None \<rparr>"

definition example_input :: SynthesisInput where
  "example_input =
     \<lparr> SynthesisInput.text = ''Hello world'', voiceId = ''voice-1'', languageCode = Some ''en'',
       modelId = None, stability = None, similarityBoost = None, styleExaggeration = None,
       useSpeakerBoost = None, optimizeStreamingLatency = None, outputFormat = None \<rparr>"

text \<open>
  The failure detail of the voices route, \<^verbatim>\<open>details\<close>, and the two longer messages.
\<close>

definition failure_details :: "thrown \<Rightarrow> string" where
  "failure_details error =
     (if instanceof_Error error then error_message error else ''Unknown error'')"

definition permission_hint :: string where
  "permission_hint = ''Your ElevenLabs API key is missing required permissions. Generate a key with voices_read access.''"

definition connectivity_hint :: string where
  "connectivity_hint = ''Unable to load ElevenLabs voices. Verify your API key and network connection.''"

text \<open>
  The message the specification describes for a failed validation: that of the first issue
  under a property, else that of the first issue of the whole form, else the generic one.
\<close>

definition spec_validation_message :: "ZodIssue list \<Rightarrow> string" where
  "spec_validation_message issues =
     (case find (\<lambda>i. issue_path i \<noteq> []) issues of
        Some i \<Rightarrow> issue_message i
      | None \<Rightarrow>
          (case find (\<lambda>i. issue_path i = []) issues of
             Some i \<Rightarrow> issue_message i
           | None \<Rightarrow> ''Please review the submitted values.''))"

text \<open>The issues, or messages, of a result; none for a success.\<close>

definition issues_of :: "ZodIssue list + 'a \<Rightarrow> ZodIssue list" where
  "issues_of r = (case r of Inl issues \<Rightarrow> issues | Inr x \<Rightarrow> [])"

definition messages_of :: "string list + 'a \<Rightarrow> string list" where
  "messages_of r = (case r of Inl ms \<Rightarrow> ms | Inr x \<Rightarrow> [])"

text \<open>Two facts about \<open>fieldErrors\<close> used below: no list is empty; the first message.\<close>

definition nonempty_lists :: "(string \<times> string list) list \<Rightarrow> bool" where
  "nonempty_lists fe = list_all (\<lambda>(k, ms). ms \<noteq> []) fe"

definition first_of :: "string list \<Rightarrow> string option" where
  "first_of ms = find (\<lambda>msg. True) ms"

text \<open>
  A submission is a successful synthesis when the handler reaches the request and the
  request gives audio. \<open>entry_of\<close> is the history entry it makes.
\<close>

definition successful :: "submission \<Rightarrow> bool" where
  "successful sub =
     (sub_selectedVoiceId sub \<noteq> []
      \<and> length (sub_text sub) \<le> getCharacterLimit (sub_language sub)
      \<and> (case sub_render sub of Inr dataUrl \<Rightarrow> True | Inl message \<Rightarrow> False))"

definition submitted_voiceName :: "submission \<Rightarrow> string" where
  "submitted_voiceName sub =
     (case find (\<lambda>voice. voice_id voice = sub_selectedVoiceId sub) (sub_voices sub) of
        Some voice \<Rightarrow> voice_name voice
      | None \<Rightarrow> ''Unknown'')"

definition entry_of :: "submission \<Rightarrow> HistoryItem" where
  "entry_of sub =
     \<lparr> item_id = sub_uuid sub, HistoryItem.text = sub_text sub,
       voiceName = submitted_voiceName sub, createdAt = sub_now sub,
       audioSrc = (case sub_render sub of Inr dataUrl \<Rightarrow> dataUrl | Inl message \<Rightarrow> []) \<rparr>"

text \<open>Example bodies of the synthesis route; the second is the one of the route's test.\<close>

definition example_invalid_body :: json where
  "example_invalid_body = JObj [(''text'', JStr ''''), (''voiceId'', JStr '''')]"

definition example_valid_body :: json where
  "example_valid_body =
     JObj [(''text'', JStr ''Hello world''), (''voiceId'', JStr ''voice-1''),
           (''language'', JStr ''en''), (''stability'', JNum 0.5),
           (''similarityBoost'', JNum 0.7), (''optimizeStreamingLatency'', JNum 1)]"

definition long_text_body :: "nat \<Rightarrow> string \<Rightarrow> json" where
  "long_text_body n language =
     JObj [(''text'', JStr (replicate n (CHR ''a''))), (''voiceId'', JStr ''voice-1''),
           (''language'', JStr language)]"

text \<open>A provider that answers 401, an audio element, and submissions of the form.\<close>

definition unauthorized_response :: fetch_response where
  "unauthorized_response =
     \<lparr> res_ok = False, res_status = 401, res_statusText = ''Unauthorized'', res_json = None,
       res_arrayBuffer = Inr [], res_body = None \<rparr>"

definition example_element :: audio_element where
  "example_element = \<lparr> el_src = '''', el_load = None, el_play = None \<rparr>"

definition example_voice :: VoiceOption where
  "example_voice = \<lparr> voice_id = ''voice-1'', voice_name = ''Rachel'', voice_languageCode = Some ''en'' \<rparr>"

definition example_submission :: "string \<Rightarrow> submission" where
  "example_submission t =
     \<lparr> sub_text = t, sub_language = ''en'', sub_voices = [example_voice],
       sub_selectedVoiceId = ''voice-1'', sub_render = Inr (''blob:'' @ t),
       sub_playback = Played, sub_uuid = ''id-'' @ t, sub_now = ''2024-01-01T00:00:00.000Z'' \<rparr>"

section \<open>Reading the request body\<close>

lemma lookup_last_json_props:
  "lookup_last k (json_props ((k', ov) # ps)) =
     (case lookup_last k (json_props ps) of
        Some w \<Rightarrow> Some w
      | None \<Rightarrow> if k = k' then ov else None)"
  by (cases ov) (simp_all split: option.splits)

lemma lookup_last_json_props_Nil: "lookup_last k (json_props []) = None"
  by simp

lemmas json_read =
  json_get.simps json_path.simps lookup_last_json_props lookup_last_json_props_Nil

section \<open>What the two requests carry\<close>

lemma sent_model_synthesizeSpeech:
  "sent_model (synthesizeSpeech_request env input) =
     Some (JStr (selectModelForLanguage (languageCode input)
       (Some (case modelId input of None \<Rightarrow> ELEVENLABS_MODEL_ID env | Some m \<Rightarrow> m))))"
  by (simp add: sent_model_def synthesizeSpeech_request_def Let_def json_read
        del: json_props.simps)

lemma sent_model_synthesizeSpeechStream:
  "sent_model (synthesizeSpeechStream_request env input) =
     Some (JStr (selectModelForLanguage (languageCode input)
       (Some (case modelId input of None \<Rightarrow> ELEVENLABS_MODEL_ID env | Some m \<Rightarrow> m))))"
  by (simp add: sent_model_def synthesizeSpeechStream_request_def Let_def json_read
        del: json_props.simps)

lemma sent_stability_synthesizeSpeech:
  "sent_setting ''stability'' (synthesizeSpeech_request env input) =
     Some (json_of_number
       (if sent_model (synthesizeSpeech_request env input) = Some (JStr ''eleven_v3'')
        then normalizeStabilityForV3 (case stability input of None \<Rightarrow> Finite 0.5 | Some v \<Rightarrow> v)
        else clamp (case stability input of None \<Rightarrow> Finite 0.5 | Some v \<Rightarrow> v) (Finite 0) (Finite 1)))"
  unfolding sent_model_synthesizeSpeech
  by (simp add: sent_setting_def synthesizeSpeech_request_def Let_def json_read
        del: json_props.simps)

lemma sent_similarity_synthesizeSpeech:
  "sent_setting ''similarity_boost'' (synthesizeSpeech_request env input) =
     Some (json_of_number
       (clamp (case similarityBoost input of None \<Rightarrow> Finite 0.8 | Some v \<Rightarrow> v) (Finite 0) (Finite 1)))"
  by (simp add: sent_setting_def synthesizeSpeech_request_def Let_def json_read
        del: json_props.simps)

lemma sent_style_synthesizeSpeech:
  "sent_setting ''style'' (synthesizeSpeech_request env input) =
     map_option (\<lambda>v. json_of_number (clamp v (Finite 0) (Finite 1))) (styleExaggeration input)"
  by (simp add: sent_setting_def synthesizeSpeech_request_def Let_def json_read
        split: option.splits del: json_props.simps)

lemma sent_stability_synthesizeSpeechStream:
  "sent_setting ''stability'' (synthesizeSpeechStream_request env input) =
     Some (json_of_number
       (if sent_model (synthesizeSpeechStream_request env input) = Some (JStr ''eleven_v3'')
        then normalizeStabilityForV3 (case stability input of None \<Rightarrow> Finite 0.5 | Some v \<Rightarrow> v)
        else clamp (case stability input of None \<Rightarrow> Finite 0.5 | Some v \<Rightarrow> v) (Finite 0) (Finite 1)))"
  unfolding sent_model_synthesizeSpeechStream
  by (simp add: sent_setting_def synthesizeSpeechStream_request_def Let_def json_read
        del: json_props.simps)

lemma sent_similarity_synthesizeSpeechStream:
  "sent_setting ''similarity_boost'' (synthesizeSpeechStream_request env input) =
     Some (json_of_number
       (clamp (case similarityBoost input of None \<Rightarrow> Finite 0.8 | Some v \<Rightarrow> v) (Finite 0) (Finite 1)))"
  by (simp add: sent_setting_def synthesizeSpeechStream_request_def Let_def json_read
        del: json_props.simps)

lemma sent_style_synthesizeSpeechStream:
  "sent_setting ''style'' (synthesizeSpeechStream_request env input) =
     map_option (\<lambda>v. json_of_number (clamp v (Finite 0) (Finite 1))) (styleExaggeration input)"
  by (simp add: sent_setting_def synthesizeSpeechStream_request_def Let_def json_read
        split: option.splits del: json_props.simps)

section \<open>Clamping and quantizing\<close>

lemma clamp_unit_spec:
  "clamp s (Finite 0) (Finite 1) =
     (if js_lt s (Finite 0) then Finite 0 else if js_lt (Finite 1) s then Finite 1 else s)"
  by (cases s) (auto simp: clamp_def Math_max_def Math_min_def)

lemma clamp_unit_range:
  "v \<noteq> NaN \<Longrightarrow> \<exists>r. clamp v (Finite 0) (Finite 1) = Finite r \<and> 0 \<le> r \<and> r \<le> 1"
  by (cases v) (auto simp: clamp_def Math_max_def Math_min_def)

lemma clamp_NaN: "clamp NaN lo hi = NaN"
  by (simp add: clamp_def Math_max_def Math_min_def)

section \<open>Model selection\<close>

text \<open>
  Claim C1, amended. In the request of either path the model is \<^verbatim>\<open>eleven_v3\<close> when the
  language code is \<^verbatim>\<open>he\<close>, whatever model id the caller gave. Otherwise, with \<open>m\<close> the
  caller's model id when given and the configured \<^verbatim>\<open>ELEVENLABS_MODEL_ID\<close> when not, the
  model is \<open>m\<close> if \<open>m\<close> is not empty and is not \<^verbatim>\<open>eleven_multilingual_v2\<close>, and
  \<^verbatim>\<open>eleven_turbo_v2_5\<close> in the two remaining cases.
\<close>

theorem model_selection:
  assumes "r = synthesizeSpeech_request env input \<or> r = synthesizeSpeechStream_request env input"
  shows "sent_model r =
     Some (JStr (if languageCode input = Some ''he'' then ''eleven_v3''
                 else if requested_model env input \<noteq> []
                         \<and> requested_model env input \<noteq> ''eleven_multilingual_v2''
                      then requested_model env input
                 else ''eleven_turbo_v2_5''))"
  using assms
  by (auto simp: sent_model_synthesizeSpeech sent_model_synthesizeSpeechStream
        selectModelForLanguage_def requested_model_def)

theorem model_selection_witness:
  "sent_model (synthesizeSpeechStream_request example_env
      (example_input\<lparr> modelId := Some ''eleven_flash_v2_5'' \<rparr>)) = Some (JStr ''eleven_flash_v2_5'')
   \<and> sent_model (synthesizeSpeech_request example_env
      (example_input\<lparr> languageCode := Some ''he'', modelId := Some ''eleven_flash_v2_5'' \<rparr>))
       = Some (JStr ''eleven_v3'')"
  using model_selection [of "synthesizeSpeechStream_request example_env
      (example_input\<lparr> modelId := Some ''eleven_flash_v2_5'' \<rparr>)" example_env
      "example_input\<lparr> modelId := Some ''eleven_flash_v2_5'' \<rparr>"]
    model_selection [of "synthesizeSpeech_request example_env
      (example_input\<lparr> languageCode := Some ''he'', modelId := Some ''eleven_flash_v2_5'' \<rparr>)" example_env
      "example_input\<lparr> languageCode := Some ''he'', modelId := Some ''eleven_flash_v2_5'' \<rparr>"]
  by (simp add: requested_model_def example_input_def example_env_def)

text \<open>
  Claim C1 as it is stated fails twice: a caller who asks for \<^verbatim>\<open>eleven_multilingual_v2\<close>
  in English gets \<^verbatim>\<open>eleven_turbo_v2_5\<close>, and a caller who gives no model id gets the
  configured model when the configuration names one other than \<^verbatim>\<open>eleven_multilingual_v2\<close>.
\<close>

theorem model_selection_counterexample:
  "languageCode (example_input\<lparr> modelId := Some ''eleven_multilingual_v2'' \<rparr>) = Some ''en''
   \<and> modelId (example_input\<lparr> modelId := Some ''eleven_multilingual_v2'' \<rparr>)
       = Some ''eleven_multilingual_v2''
   \<and> spec_selected_model (Some ''en'') (Some ''eleven_multilingual_v2'') = ''eleven_multilingual_v2''
   \<and> sent_model (synthesizeSpeech_request example_env
        (example_input\<lparr> modelId := Some ''eleven_multilingual_v2'' \<rparr>))
       = Some (JStr ''eleven_turbo_v2_5'')
   \<and> modelId example_input = None
   \<and> spec_selected_model (Some ''en'') None = ''eleven_turbo_v2_5''
   \<and> sent_model (synthesizeSpeech_request
        (example_env\<lparr> ELEVENLABS_MODEL_ID := ''eleven_flash_v2_5'' \<rparr>) example_input)
       = Some (JStr ''eleven_flash_v2_5'')"
  by (simp add: sent_model_synthesizeSpeech selectModelForLanguage_def spec_selected_model_def
        example_input_def example_env_def)

section \<open>Stability quantization\<close>

text \<open>
  Claim C2. For a stability \<open>s\<close> given by the caller, on the buffered and on the streaming
  path alike: when the model of the request is \<^verbatim>\<open>eleven_v3\<close> the stability sent is 0.0 if
  \<open>s \<le> 0.25\<close>, 0.5 if \<open>0.25 < s \<le> 0.75\<close> and 1.0 if \<open>s > 0.75\<close>; for any other model it
  is \<open>s\<close> clamped to the unit interval, as \<^verbatim>\<open>JSON.stringify\<close> writes it.
\<close>

theorem stability_quantization:
  assumes "stability input = Some s"
    and "r = synthesizeSpeech_request env input \<or> r = synthesizeSpeechStream_request env input"
  shows "(sent_model r = Some (JStr ''eleven_v3'') \<longrightarrow>
            (js_le s (Finite 0.25) \<longrightarrow> sent_setting ''stability'' r = Some (JNum 0.0))
          \<and> (js_lt (Finite 0.25) s \<and> js_le s (Finite 0.75) \<longrightarrow>
               sent_setting ''stability'' r = Some (JNum 0.5))
          \<and> (js_lt (Finite 0.75) s \<longrightarrow> sent_setting ''stability'' r = Some (JNum 1.0)))
       \<and> (sent_model r \<noteq> Some (JStr ''eleven_v3'') \<longrightarrow>
            sent_setting ''stability'' r = Some (json_of_number (spec_clamp_unit s)))"
proof -
  have v3: "js_le s (Finite 0.25) \<Longrightarrow> normalizeStabilityForV3 s = Finite 0"
    "js_lt (Finite 0.25) s \<Longrightarrow> js_le s (Finite 0.75) \<Longrightarrow> normalizeStabilityForV3 s = Finite 0.5"
    "js_lt (Finite 0.75) s \<Longrightarrow> normalizeStabilityForV3 s = Finite 1"
    by (cases s; simp add: normalizeStabilityForV3_def)+
  have other: "clamp s (Finite 0) (Finite 1) = spec_clamp_unit s"
    by (simp add: clamp_unit_spec spec_clamp_unit_def)
  from assms(2) show ?thesis
  proof
    assume "r = synthesizeSpeech_request env input"
    then show ?thesis
      using v3 other by (simp add: sent_stability_synthesizeSpeech assms(1))
  next
    assume "r = synthesizeSpeechStream_request env input"
    then show ?thesis
      using v3 other by (simp add: sent_stability_synthesizeSpeechStream assms(1))
  qed
qed

theorem stability_quantization_witness:
  "sent_setting ''stability'' (synthesizeSpeech_request example_env
      (example_input\<lparr> languageCode := Some ''he'', stability := Some (Finite 0.6) \<rparr>))
     = Some (JNum 0.5)
   \<and> sent_setting ''stability'' (synthesizeSpeechStream_request example_env
      (example_input\<lparr> languageCode := Some ''he'', stability := Some (Finite 0.2) \<rparr>))
     = Some (JNum 0.0)
   \<and> sent_setting ''stability'' (synthesizeSpeechStream_request example_env
      (example_input\<lparr> languageCode := Some ''he'', stability := Some (Finite 0.9) \<rparr>))
     = Some (JNum 1.0)
   \<and> sent_setting ''stability'' (synthesizeSpeechStream_request example_env
      (example_input\<lparr> stability := Some (Finite 1.7) \<rparr>))
     = Some (JNum 1)"
  using
    stability_quantization [of "example_input\<lparr> languageCode := Some ''he'', stability := Some (Finite 0.6) \<rparr>"
      "Finite 0.6" "synthesizeSpeech_request example_env
        (example_input\<lparr> languageCode := Some ''he'', stability := Some (Finite 0.6) \<rparr>)" example_env]
    stability_quantization [of "example_input\<lparr> languageCode := Some ''he'', stability := Some (Finite 0.2) \<rparr>"
      "Finite 0.2" "synthesizeSpeechStream_request example_env
        (example_input\<lparr> languageCode := Some ''he'', stability := Some (Finite 0.2) \<rparr>)" example_env]
    stability_quantization [of "example_input\<lparr> languageCode := Some ''he'', stability := Some (Finite 0.9) \<rparr>"
      "Finite 0.9" "synthesizeSpeechStream_request example_env
        (example_input\<lparr> languageCode := Some ''he'', stability := Some (Finite 0.9) \<rparr>)" example_env]
    stability_quantization [of "example_input\<lparr> stability := Some (Finite 1.7) \<rparr>"
      "Finite 1.7" "synthesizeSpeechStream_request example_env
        (example_input\<lparr> stability := Some (Finite 1.7) \<rparr>)" example_env]
  by (simp add: sent_model_synthesizeSpeech sent_model_synthesizeSpeechStream
        selectModelForLanguage_def spec_clamp_unit_def example_input_def example_env_def)

text \<open>Without a stability from the caller, both paths send 0.5, whatever the model.\<close>

lemma stability_default:
  assumes "stability input = None"
  shows "sent_setting ''stability'' (synthesizeSpeech_request env input) = Some (JNum 0.5)"
    and "sent_setting ''stability'' (synthesizeSpeechStream_request env input) = Some (JNum 0.5)"
  using assms
  by (simp_all add: sent_stability_synthesizeSpeech sent_stability_synthesizeSpeechStream
        normalizeStabilityForV3_def clamp_def Math_max_def Math_min_def)

section \<open>The range of the voice settings sent\<close>

lemma in_unit_interval_clamp:
  "v \<noteq> NaN \<Longrightarrow> in_unit_interval (Some (json_of_number (clamp v (Finite 0) (Finite 1))))"
  using clamp_unit_range [of v] by (auto simp: in_unit_interval_def)

text \<open>
  Claim C10, amended. In the request of either path: \<^verbatim>\<open>similarity_boost\<close> is a number in
  [0,1] unless the caller's \<^verbatim>\<open>similarityBoost\<close> is NaN; \<^verbatim>\<open>style\<close> is absent when
  \<^verbatim>\<open>styleExaggeration\<close> is, and is a number in [0,1] when it is given and is not NaN; the
  stability is one of 0.0, 0.5, 1.0 when the model is \<^verbatim>\<open>eleven_v3\<close>, and otherwise a number
  in [0,1] unless the caller's \<^verbatim>\<open>stability\<close> is NaN. Values out of range, infinite ones
  included, are covered.
\<close>

theorem provider_range:
  assumes "r = synthesizeSpeech_request env input \<or> r = synthesizeSpeechStream_request env input"
  shows "(similarityBoost input \<noteq> Some NaN \<longrightarrow>
            in_unit_interval (sent_setting ''similarity_boost'' r))
       \<and> (styleExaggeration input = None \<longrightarrow> sent_setting ''style'' r = None)
       \<and> (\<forall>v. styleExaggeration input = Some v \<longrightarrow> v \<noteq> NaN \<longrightarrow>
            in_unit_interval (sent_setting ''style'' r))
       \<and> (sent_model r = Some (JStr ''eleven_v3'') \<longrightarrow>
            sent_setting ''stability'' r \<in> {Some (JNum 0.0), Some (JNum 0.5), Some (JNum 1.0)})
       \<and> (sent_model r \<noteq> Some (JStr ''eleven_v3'') \<longrightarrow> stability input \<noteq> Some NaN \<longrightarrow>
            in_unit_interval (sent_setting ''stability'' r))"
proof -
  have sim: "similarityBoost input \<noteq> Some NaN \<Longrightarrow>
      in_unit_interval (Some (json_of_number
        (clamp (case similarityBoost input of None \<Rightarrow> Finite 0.8 | Some v \<Rightarrow> v)
           (Finite 0) (Finite 1))))"
    by (rule in_unit_interval_clamp) (auto split: option.splits)
  have stab: "stability input \<noteq> Some NaN \<Longrightarrow>
      in_unit_interval (Some (json_of_number
        (clamp (case stability input of None \<Rightarrow> Finite 0.5 | Some v \<Rightarrow> v)
           (Finite 0) (Finite 1))))"
    by (rule in_unit_interval_clamp) (auto split: option.splits)
  have v3: "json_of_number (normalizeStabilityForV3 x) \<in> {JNum 0.0, JNum 0.5, JNum 1.0}" for x
    by (simp add: normalizeStabilityForV3_def)
  from assms show ?thesis
  proof
    assume r: "r = synthesizeSpeech_request env input"
    show ?thesis
      unfolding r sent_stability_synthesizeSpeech sent_similarity_synthesizeSpeech
        sent_style_synthesizeSpeech
      using sim stab v3 by (auto simp: in_unit_interval_clamp)
  next
    assume r: "r = synthesizeSpeechStream_request env input"
    show ?thesis
      unfolding r sent_stability_synthesizeSpeechStream sent_similarity_synthesizeSpeechStream
        sent_style_synthesizeSpeechStream
      using sim stab v3 by (auto simp: in_unit_interval_clamp)
  qed
qed

theorem provider_range_witness:
  "in_unit_interval (sent_setting ''similarity_boost'' (synthesizeSpeech_request example_env
      (example_input\<lparr> similarityBoost := Some (Finite 7), styleExaggeration := Some NegInfinity,
         stability := Some (Finite (- 3)) \<rparr>)))
   \<and> in_unit_interval (sent_setting ''style'' (synthesizeSpeech_request example_env
      (example_input\<lparr> similarityBoost := Some (Finite 7), styleExaggeration := Some NegInfinity,
         stability := Some (Finite (- 3)) \<rparr>)))
   \<and> in_unit_interval (sent_setting ''stability'' (synthesizeSpeech_request example_env
      (example_input\<lparr> similarityBoost := Some (Finite 7), styleExaggeration := Some NegInfinity,
         stability := Some (Finite (- 3)) \<rparr>)))"
  using provider_range [of "synthesizeSpeech_request example_env
      (example_input\<lparr> similarityBoost := Some (Finite 7), styleExaggeration := Some NegInfinity,
         stability := Some (Finite (- 3)) \<rparr>)" example_env
      "example_input\<lparr> similarityBoost := Some (Finite 7), styleExaggeration := Some NegInfinity,
         stability := Some (Finite (- 3)) \<rparr>"]
  by (simp add: sent_model_synthesizeSpeech selectModelForLanguage_def example_input_def
        example_env_def)

text \<open>
  Claim C10 as it is stated fails for NaN: \<^verbatim>\<open>Math.min\<close> and \<^verbatim>\<open>Math.max\<close> return NaN, and
  the body then carries \<^verbatim>\<open>null\<close> for \<^verbatim>\<open>similarity_boost\<close>.
\<close>

theorem provider_range_counterexample:
  "similarityBoost (example_input\<lparr> similarityBoost := Some NaN \<rparr>) = Some NaN
   \<and> sent_setting ''similarity_boost''
        (synthesizeSpeech_request example_env (example_input\<lparr> similarityBoost := Some NaN \<rparr>))
       = Some JNull
   \<and> \<not> in_unit_interval (sent_setting ''similarity_boost''
        (synthesizeSpeech_request example_env (example_input\<lparr> similarityBoost := Some NaN \<rparr>)))"
  by (simp add: sent_similarity_synthesizeSpeech clamp_NaN in_unit_interval_def
        example_input_def)

section \<open>Language normalization\<close>

lemma inj_units: "inj units"
  unfolding units_def by (rule inj_mapI) (rule inj_of_char)

lemma units_eq_iff: "units a = units b \<longleftrightarrow> a = b"
  using inj_units by (auto dest: injD)

lemma units_Nil_iff: "units k = [] \<longleftrightarrow> k = []"
  by (simp add: units_def)

lemma fold_set_other:
  "x \<notin> set (map (\<lambda>(k, v). units k) es) \<Longrightarrow>
     fold (\<lambda>(k, v) m. m(units k \<mapsto> units v)) es m x = m x"
  by (induction es arbitrary: m) auto

lemma fold_set_entry:
  "distinct (map fst es) \<Longrightarrow> (k, v) \<in> set es \<Longrightarrow>
     fold (\<lambda>(k, v) m. m(units k \<mapsto> units v)) es m (units k) = Some (units v)"
proof (induction es arbitrary: m)
  case Nil
  then show ?case by simp
next
  case (Cons e es)
  obtain k' v' where e: "e = (k', v')" by (cases e)
  show ?case
  proof (cases "(k, v) \<in> set es")
    case True
    with Cons show ?thesis by simp
  next
    case False
    with Cons.prems e have kv: "k' = k" "v' = v" by auto
    from Cons.prems e kv have "k \<notin> fst ` set es" by simp
    then have "units k \<notin> set (map (\<lambda>(k, v). units k) es)"
      by (auto simp: units_eq_iff image_iff)
    then have "fold (\<lambda>(k, v) m. m(units k \<mapsto> units v)) es (m(units k \<mapsto> units v)) (units k)
        = (m(units k \<mapsto> units v)) (units k)"
      by (rule fold_set_other)
    then show ?thesis
      unfolding e kv by (simp only: fold_simps comp_apply case_prod_conv fun_upd_same)
  qed
qed

lemma distinct_entries: "distinct (map fst NAME_TO_CODE_entries)"
  by (simp add: NAME_TO_CODE_entries_def)

lemma entries_nonempty:
  "(k, c) \<in> set NAME_TO_CODE_entries \<Longrightarrow> k \<noteq> [] \<and> c \<noteq> []"
  by (auto simp: NAME_TO_CODE_entries_def)

lemma NAME_TO_CODE_entry:
  "(k, c) \<in> set NAME_TO_CODE_entries \<Longrightarrow> NAME_TO_CODE (units k) = Some (units c)"
  unfolding NAME_TO_CODE_def by (rule fold_set_entry [OF distinct_entries])

lemma NAME_TO_CODE_other:
  "n \<notin> set NAME_TO_CODE_keys \<Longrightarrow> NAME_TO_CODE n = None"
  unfolding NAME_TO_CODE_def NAME_TO_CODE_keys_def by (simp add: fold_set_other)

lemma resolve_empty:
  assumes "toLowerCase (trim s) = []"
  shows "resolveLanguageCode toLowerCase (Some s) = None"
  using assms by (simp add: resolveLanguageCode_def)

lemma normalized_Nil:
  assumes "\<And>s. is_ascii s \<Longrightarrow> toLowerCase s = ascii_toLowerCase s"
  shows "toLowerCase (trim []) = []"
  using assms [of "[]"] by (simp add: trim_def is_ascii_def ascii_toLowerCase_def)

lemma resolve_direct:
  assumes "\<And>s. is_ascii s \<Longrightarrow> toLowerCase s = ascii_toLowerCase s"
    and "(k, c) \<in> set NAME_TO_CODE_entries" and "toLowerCase (trim s) = units k"
  shows "resolveLanguageCode toLowerCase (Some s) = Some (units c)"
proof -
  from entries_nonempty [OF assms(2)] have ne: "units k \<noteq> []" "units c \<noteq> []"
    by (simp_all add: units_Nil_iff)
  with assms(3) normalized_Nil [OF assms(1)] have "s \<noteq> []" by auto
  with ne assms(3) NAME_TO_CODE_entry [OF assms(2)] show ?thesis
    by (simp add: resolveLanguageCode_def)
qed

lemma resolve_prefix:
  assumes "\<And>s. is_ascii s \<Longrightarrow> toLowerCase s = ascii_toLowerCase s"
    and "toLowerCase (trim s) \<notin> set NAME_TO_CODE_keys" and "isoMatch (toLowerCase (trim s))"
  shows "resolveLanguageCode toLowerCase (Some s) =
     Some (case NAME_TO_CODE (take 2 (toLowerCase (trim s))) of
             Some c \<Rightarrow> c
           | None \<Rightarrow> take 2 (toLowerCase (trim s)))"
proof -
  from assms(3) normalized_Nil [OF assms(1)] have s: "s \<noteq> []" by auto
  from assms(3) have n: "toLowerCase (trim s) \<noteq> []" by auto
  from s n assms(3) NAME_TO_CODE_other [OF assms(2)] show ?thesis
    by (simp add: resolveLanguageCode_def split: option.splits)
qed

lemma resolve_none:
  assumes "toLowerCase (trim s) \<notin> set NAME_TO_CODE_keys"
    and "\<not> isoMatch (toLowerCase (trim s))"
  shows "resolveLanguageCode toLowerCase (Some s) = None"
  using assms NAME_TO_CODE_other [OF assms(1)] by (simp add: resolveLanguageCode_def Let_def)

lemma resolve_normal_form:
  assumes "\<And>s. is_ascii s \<Longrightarrow> toLowerCase s = ascii_toLowerCase s"
    and "toLowerCase (trim s) = toLowerCase (trim t)"
  shows "resolveLanguageCode toLowerCase (Some s) = resolveLanguageCode toLowerCase (Some t)"
proof (cases "toLowerCase (trim s) = []")
  case True
  with assms(2) show ?thesis by (simp add: resolve_empty)
next
  case False
  with normalized_Nil [OF assms(1)] assms(2) have "s \<noteq> []" "t \<noteq> []" by auto
  with assms(2) show ?thesis by (simp add: resolveLanguageCode_def)
qed

lemma isWhiteSpace_lower:
  "isWhiteSpace (if 0x41 \<le> c \<and> c \<le> 0x5A then c + 0x20 else c) = isWhiteSpace c"
  by (auto simp: isWhiteSpace_def)

lemma trim_ascii_toLowerCase: "trim (ascii_toLowerCase s) = ascii_toLowerCase (trim s)"
proof -
  have c: "isWhiteSpace \<circ> (\<lambda>c. if 0x41 \<le> c \<and> c \<le> 0x5A then c + 0x20 else c) = isWhiteSpace"
    by (rule ext) (simp only: comp_apply isWhiteSpace_lower)
  show ?thesis
    unfolding trim_def ascii_toLowerCase_def
    by (simp only: dropWhile_map rev_map c)
qed

lemma is_ascii_trim: "is_ascii s \<Longrightarrow> is_ascii (trim s)"
  unfolding is_ascii_def trim_def list_all_iff
  by (auto dest!: set_dropWhileD)

lemma dropWhile_all: "list_all P a \<Longrightarrow> dropWhile P (a @ xs) = dropWhile P xs"
  by (induction a) simp_all

lemma trim_pad:
  assumes "list_all isWhiteSpace a" and "list_all isWhiteSpace b"
  shows "trim (a @ s @ b) = trim s"
proof -
  have b: "list_all isWhiteSpace (rev b)"
    using assms(2) by (simp add: list_all_iff)
  have "dropWhile isWhiteSpace (rev (dropWhile isWhiteSpace (s @ b)))
      = dropWhile isWhiteSpace (rev (dropWhile isWhiteSpace s))"
  proof (cases "list_all isWhiteSpace s")
    case True
    with assms(2) have e: "dropWhile isWhiteSpace (s @ b) = []" "dropWhile isWhiteSpace s = []"
      by (simp_all add: list_all_iff)
    show ?thesis unfolding e by (rule refl)
  next
    case False
    then have "\<exists>x \<in> set s. \<not> isWhiteSpace x"
      by (simp add: list_all_iff)
    then have "dropWhile isWhiteSpace (s @ b) = dropWhile isWhiteSpace s @ b"
      by (auto simp: dropWhile_append)
    then show ?thesis
      using b by (simp add: dropWhile_all)
  qed
  then show ?thesis
    using assms(1) by (simp add: trim_def dropWhile_all)
qed

lemma resolve_pad:
  assumes "\<And>s. is_ascii s \<Longrightarrow> toLowerCase s = ascii_toLowerCase s"
    and "list_all isWhiteSpace a" and "list_all isWhiteSpace b"
  shows "resolveLanguageCode toLowerCase (Some (a @ s @ b))
       = resolveLanguageCode toLowerCase (Some s)"
  by (rule resolve_normal_form [OF assms(1)], assumption)
     (rule arg_cong [OF trim_pad [OF assms(2,3)]])

lemma resolve_case:
  assumes "\<And>s. is_ascii s \<Longrightarrow> toLowerCase s = ascii_toLowerCase s"
    and "is_ascii s" and "is_ascii t" and "ascii_toLowerCase s = ascii_toLowerCase t"
  shows "resolveLanguageCode toLowerCase (Some s) = resolveLanguageCode toLowerCase (Some t)"
proof (rule resolve_normal_form [OF assms(1)])
  have "toLowerCase (trim s) = trim (ascii_toLowerCase s)"
    using assms(1) [OF is_ascii_trim [OF assms(2)]] by (simp add: trim_ascii_toLowerCase)
  moreover have "toLowerCase (trim t) = trim (ascii_toLowerCase t)"
    using assms(1) [OF is_ascii_trim [OF assms(3)]] by (simp add: trim_ascii_toLowerCase)
  ultimately show "toLowerCase (trim s) = toLowerCase (trim t)"
    using assms(4) by simp
qed

lemma trim_hebrew_modern: "trim (units ''Hebrew (Modern)'') = units ''Hebrew (Modern)''"
  by (simp add: trim_def units_def isWhiteSpace_def)

lemma trim_en_us: "trim (units ''en-US'') = units ''en-US''"
  by (simp add: trim_def units_def isWhiteSpace_def)

lemma lower_hebrew_modern:
  "is_ascii (units ''Hebrew (Modern)'')
   \<and> ascii_toLowerCase (units ''Hebrew (Modern)'') = units ''hebrew (modern)''"
  by (simp add: is_ascii_def ascii_toLowerCase_def units_def)

lemma lower_en_us:
  "is_ascii (units ''en-US'') \<and> ascii_toLowerCase (units ''en-US'') = units ''en-us''"
  by (simp add: is_ascii_def ascii_toLowerCase_def units_def)

lemma en_us_no_key: "units ''en-us'' \<notin> set NAME_TO_CODE_keys"
  by (simp add: NAME_TO_CODE_keys_def NAME_TO_CODE_entries_def units_eq_iff)

lemma en_us_shape: "isoMatch (units ''en-us'') \<and> take 2 (units ''en-us'') = units ''en''"
  by (simp add: units_def is_az_i_def)

lemma padded_hebrew:
  "trim (0xA0 # units '' HEBREW (modern)'' @ [0xFEFF]) = units ''HEBREW (modern)''"
  "is_ascii (units ''HEBREW (modern)'')"
  "ascii_toLowerCase (units ''HEBREW (modern)'') = units ''hebrew (modern)''"
  by (simp_all add: trim_def units_def isWhiteSpace_def is_ascii_def ascii_toLowerCase_def)

lemma not_tags:
  "trim (units ''e1-US'') = units ''e1-US''" "is_ascii (units ''e1-US'')"
  "ascii_toLowerCase (units ''e1-US'') = units ''e1-us''"
  "units ''e1-us'' \<notin> set NAME_TO_CODE_keys" "\<not> isoMatch (units ''e1-us'')"
  "trim (units ''en-USA'') = units ''en-USA''" "is_ascii (units ''en-USA'')"
  "ascii_toLowerCase (units ''en-USA'') = units ''en-usa''"
  "units ''en-usa'' \<notin> set NAME_TO_CODE_keys" "\<not> isoMatch (units ''en-usa'')"
  by (simp_all add: trim_def units_def isWhiteSpace_def is_ascii_def ascii_toLowerCase_def
        NAME_TO_CODE_keys_def NAME_TO_CODE_entries_def is_az_i_def)

text \<open>
  Claim C7. \<^verbatim>\<open>resolveLanguageCode\<close> is a function of its argument alone, and a trimmed,
  case-insensitive lookup. For every \<^verbatim>\<open>toLowerCase\<close> that is the ASCII lowering on ASCII
  text, as the one of JavaScript is:
  "Hebrew (Modern)" gives \<^verbatim>\<open>he\<close> and "en-US" gives \<^verbatim>\<open>en\<close>;
  a text whose trimmed, lower-cased form is a name of the table gives the code of that name;
  a text whose form is no name of the table but has the shape of an ISO tag gives the code
  the table has for its first two code units, or these two code units when the table has
  none;
  a text whose form is neither gives no match, and so does an absent text;
  texts with the same form get the same answer, so that white space added at either end
  and the case of ASCII letters do not change it;
  no-break space and byte order mark are trimmed, and a digit or a sixth code unit breaks
  the shape of a tag.
\<close>

theorem resolveLanguageCode_lookup:
  assumes "\<And>s. is_ascii s \<Longrightarrow> toLowerCase s = ascii_toLowerCase s"
  shows "resolveLanguageCode toLowerCase (Some (units ''Hebrew (Modern)'')) = Some (units ''he'')
   \<and> resolveLanguageCode toLowerCase (Some (units ''en-US'')) = Some (units ''en'')
   \<and> (\<forall>s k c. (k, c) \<in> set NAME_TO_CODE_entries \<and> toLowerCase (trim s) = units k \<longrightarrow>
         resolveLanguageCode toLowerCase (Some s) = Some (units c))
   \<and> (\<forall>s. toLowerCase (trim s) \<notin> set NAME_TO_CODE_keys \<and> isoMatch (toLowerCase (trim s)) \<longrightarrow>
         (\<forall>k c. (k, c) \<in> set NAME_TO_CODE_entries
                  \<and> take 2 (toLowerCase (trim s)) = units k \<longrightarrow>
            resolveLanguageCode toLowerCase (Some s) = Some (units c))
       \<and> (take 2 (toLowerCase (trim s)) \<notin> set NAME_TO_CODE_keys \<longrightarrow>
            resolveLanguageCode toLowerCase (Some s) = Some (take 2 (toLowerCase (trim s)))))
   \<and> (\<forall>s. toLowerCase (trim s) \<notin> set NAME_TO_CODE_keys
            \<and> \<not> isoMatch (toLowerCase (trim s)) \<longrightarrow>
         resolveLanguageCode toLowerCase (Some s) = None)
   \<and> resolveLanguageCode toLowerCase None = None
   \<and> (\<forall>s t. toLowerCase (trim s) = toLowerCase (trim t) \<longrightarrow>
         resolveLanguageCode toLowerCase (Some s) = resolveLanguageCode toLowerCase (Some t))
   \<and> (\<forall>s a b. list_all isWhiteSpace a \<and> list_all isWhiteSpace b \<longrightarrow>
         resolveLanguageCode toLowerCase (Some (a @ s @ b))
           = resolveLanguageCode toLowerCase (Some s))
   \<and> (\<forall>s t. is_ascii s \<and> is_ascii t \<and> ascii_toLowerCase s = ascii_toLowerCase t \<longrightarrow>
         resolveLanguageCode toLowerCase (Some s) = resolveLanguageCode toLowerCase (Some t))
   \<and> resolveLanguageCode toLowerCase (Some (0xA0 # units '' HEBREW (modern)'' @ [0xFEFF]))
       = Some (units ''he'')
   \<and> resolveLanguageCode toLowerCase (Some (units ''e1-US'')) = None
   \<and> resolveLanguageCode toLowerCase (Some (units ''en-USA'')) = None"
proof (intro conjI allI impI)
  have he: "(''hebrew (modern)'', ''he'') \<in> set NAME_TO_CODE_entries"
    by (simp add: NAME_TO_CODE_entries_def)
  have en: "(''en'', ''en'') \<in> set NAME_TO_CODE_entries"
    by (simp add: NAME_TO_CODE_entries_def)
  have n1: "toLowerCase (trim (units ''Hebrew (Modern)'')) = units ''hebrew (modern)''"
    using assms [of "units ''Hebrew (Modern)''"] lower_hebrew_modern
    by (simp add: trim_hebrew_modern)
  have n2: "toLowerCase (trim (units ''en-US'')) = units ''en-us''"
    using assms [of "units ''en-US''"] lower_en_us by (simp add: trim_en_us)
  show "resolveLanguageCode toLowerCase (Some (units ''Hebrew (Modern)'')) = Some (units ''he'')"
    using assms he n1 by (rule resolve_direct)
  show "resolveLanguageCode toLowerCase (Some (units ''en-US'')) = Some (units ''en'')"
    using resolve_prefix [OF assms, of "units ''en-US''"] en_us_no_key en_us_shape
      NAME_TO_CODE_entry [OF en]
    by (simp add: n2)
  show "resolveLanguageCode toLowerCase None = None"
    by (simp add: resolveLanguageCode_def)
  have n3: "toLowerCase (trim (0xA0 # units '' HEBREW (modern)'' @ [0xFEFF]))
      = units ''hebrew (modern)''"
    using assms [of "units ''HEBREW (modern)''"] padded_hebrew by simp
  show "resolveLanguageCode toLowerCase (Some (0xA0 # units '' HEBREW (modern)'' @ [0xFEFF]))
      = Some (units ''he'')"
    using assms he n3 by (rule resolve_direct)
  have n4: "toLowerCase (units ''e1-US'') = units ''e1-us''"
    using assms [of "units ''e1-US''"] not_tags by simp
  have n5: "toLowerCase (units ''en-USA'') = units ''en-usa''"
    using assms [of "units ''en-USA''"] not_tags by simp
  show "resolveLanguageCode toLowerCase (Some (units ''e1-US'')) = None"
    using resolve_none [of toLowerCase "units ''e1-US''"] not_tags by (simp add: n4)
  show "resolveLanguageCode toLowerCase (Some (units ''en-USA'')) = None"
    using resolve_none [of toLowerCase "units ''en-USA''"] not_tags by (simp add: n5)
next
  fix s a b
  assume "list_all isWhiteSpace a \<and> list_all isWhiteSpace b"
  then show "resolveLanguageCode toLowerCase (Some (a @ s @ b))
      = resolveLanguageCode toLowerCase (Some s)"
    using resolve_pad [OF assms] by blast
next
  fix s t
  assume "is_ascii s \<and> is_ascii t \<and> ascii_toLowerCase s = ascii_toLowerCase t"
  then show "resolveLanguageCode toLowerCase (Some s) = resolveLanguageCode toLowerCase (Some t)"
    using resolve_case [OF assms] by blast
next
  fix s k c
  assume "(k, c) \<in> set NAME_TO_CODE_entries \<and> toLowerCase (trim s) = units k"
  then show "resolveLanguageCode toLowerCase (Some s) = Some (units c)"
    using resolve_direct [OF assms] by blast
next
  fix s k c
  assume a: "toLowerCase (trim s) \<notin> set NAME_TO_CODE_keys \<and> isoMatch (toLowerCase (trim s))"
    and b: "(k, c) \<in> set NAME_TO_CODE_entries \<and> take 2 (toLowerCase (trim s)) = units k"
  from b NAME_TO_CODE_entry [of k c]
  have "NAME_TO_CODE (take 2 (toLowerCase (trim s))) = Some (units c)" by simp
  with a resolve_prefix [OF assms, of s]
  show "resolveLanguageCode toLowerCase (Some s) = Some (units c)" by simp
next
  fix s
  assume a: "toLowerCase (trim s) \<notin> set NAME_TO_CODE_keys \<and> isoMatch (toLowerCase (trim s))"
    and b: "take 2 (toLowerCase (trim s)) \<notin> set NAME_TO_CODE_keys"
  from b have "NAME_TO_CODE (take 2 (toLowerCase (trim s))) = None"
    by (rule NAME_TO_CODE_other)
  with a resolve_prefix [OF assms, of s]
  show "resolveLanguageCode toLowerCase (Some s) = Some (take 2 (toLowerCase (trim s)))"
    by simp
next
  fix s
  assume "toLowerCase (trim s) \<notin> set NAME_TO_CODE_keys \<and> \<not> isoMatch (toLowerCase (trim s))"
  then show "resolveLanguageCode toLowerCase (Some s) = None"
    using resolve_none by blast
next
  fix s t
  assume "toLowerCase (trim s) = toLowerCase (trim t)"
  with assms
  show "resolveLanguageCode toLowerCase (Some s) = resolveLanguageCode toLowerCase (Some t)"
    by (rule resolve_normal_form)
qed

lemma norm_english: "ascii_toLowerCase (trim (units ''  English '')) = units ''english''"
  by (simp add: trim_def units_def isWhiteSpace_def ascii_toLowerCase_def)

lemma norm_nbsp_he: "ascii_toLowerCase (trim (0xA0 # units ''he'' @ [0xFEFF])) = units ''he''"
  by (simp add: trim_def units_def isWhiteSpace_def ascii_toLowerCase_def)

lemma norm_fr_fr: "ascii_toLowerCase (trim (units ''fr-FR'')) = units ''fr-fr''"
  by (simp add: trim_def units_def isWhiteSpace_def ascii_toLowerCase_def)

lemma norm_xx_yy: "ascii_toLowerCase (trim (units ''xx_YY'')) = units ''xx_yy''"
  by (simp add: trim_def units_def isWhiteSpace_def ascii_toLowerCase_def)

lemma norm_klingon: "ascii_toLowerCase (trim (units ''  Klingon '')) = units ''klingon''"
  by (simp add: trim_def units_def isWhiteSpace_def ascii_toLowerCase_def)

lemma no_keys:
  "units ''fr-fr'' \<notin> set NAME_TO_CODE_keys" "units ''xx_yy'' \<notin> set NAME_TO_CODE_keys"
  "units ''xx'' \<notin> set NAME_TO_CODE_keys" "units ''klingon'' \<notin> set NAME_TO_CODE_keys"
  by (simp_all add: NAME_TO_CODE_keys_def NAME_TO_CODE_entries_def units_eq_iff)

lemma shapes:
  "isoMatch (units ''fr-fr'')" "take 2 (units ''fr-fr'') = units ''fr''"
  "isoMatch (units ''xx_yy'')" "take 2 (units ''xx_yy'') = units ''xx''"
  "\<not> isoMatch (units ''klingon'')"
  by (simp_all add: units_def is_az_i_def)

theorem resolveLanguageCode_lookup_witness:
  "resolveLanguageCode ascii_toLowerCase (Some (units ''Hebrew (Modern)'')) = Some (units ''he'')
   \<and> resolveLanguageCode ascii_toLowerCase (Some (units ''en-US'')) = Some (units ''en'')
   \<and> resolveLanguageCode ascii_toLowerCase (Some (units ''  English '')) = Some (units ''en'')
   \<and> resolveLanguageCode ascii_toLowerCase (Some (0xA0 # units ''he'' @ [0xFEFF]))
       = Some (units ''he'')
   \<and> resolveLanguageCode ascii_toLowerCase (Some (units ''fr-FR'')) = Some (units ''fr'')
   \<and> resolveLanguageCode ascii_toLowerCase (Some (units ''xx_YY'')) = Some (units ''xx'')
   \<and> resolveLanguageCode ascii_toLowerCase (Some (units ''  Klingon '')) = None"
proof -
  note T = resolveLanguageCode_lookup [of ascii_toLowerCase, OF refl]
  have e: "(''english'', ''en'') \<in> set NAME_TO_CODE_entries"
    "(''he'', ''he'') \<in> set NAME_TO_CODE_entries"
    "(''fr'', ''fr'') \<in> set NAME_TO_CODE_entries"
    by (simp_all add: NAME_TO_CODE_entries_def)
  from T have direct: "(k, c) \<in> set NAME_TO_CODE_entries
      \<and> ascii_toLowerCase (trim s) = units k \<longrightarrow>
      resolveLanguageCode ascii_toLowerCase (Some s) = Some (units c)" for s k c
    by (elim conjE) (erule allE)+
  from T have prefix: "ascii_toLowerCase (trim s) \<notin> set NAME_TO_CODE_keys
      \<and> isoMatch (ascii_toLowerCase (trim s)) \<longrightarrow>
         (\<forall>k c. (k, c) \<in> set NAME_TO_CODE_entries
                  \<and> take 2 (ascii_toLowerCase (trim s)) = units k \<longrightarrow>
            resolveLanguageCode ascii_toLowerCase (Some s) = Some (units c))
       \<and> (take 2 (ascii_toLowerCase (trim s)) \<notin> set NAME_TO_CODE_keys \<longrightarrow>
            resolveLanguageCode ascii_toLowerCase (Some s)
              = Some (take 2 (ascii_toLowerCase (trim s))))" for s
    by (elim conjE) (erule allE)+
  from T have none: "ascii_toLowerCase (trim s) \<notin> set NAME_TO_CODE_keys
      \<and> \<not> isoMatch (ascii_toLowerCase (trim s)) \<longrightarrow>
      resolveLanguageCode ascii_toLowerCase (Some s) = None" for s
    by (elim conjE) (erule allE)+
  from T have ex: "resolveLanguageCode ascii_toLowerCase (Some (units ''Hebrew (Modern)''))
        = Some (units ''he'')"
    "resolveLanguageCode ascii_toLowerCase (Some (units ''en-US'')) = Some (units ''en'')"
    by simp_all
  show ?thesis
    using ex direct [of "''english''" "''en''" "units ''  English ''"]
      direct [of "''he''" "''he''" "0xA0 # units ''he'' @ [0xFEFF]"]
      prefix [of "units ''fr-FR''"] prefix [of "units ''xx_YY''"]
      none [of "units ''  Klingon ''"] e no_keys shapes
    by (simp add: norm_english norm_nbsp_he norm_fr_fr norm_xx_yy norm_klingon)
qed

section \<open>The voices route\<close>

lemma startsWith_iff: "startsWith s sub \<longleftrightarrow> prefix sub s"
  by (induction s sub rule: startsWith.induct) auto

lemma String_includes_iff: "String_includes s sub \<longleftrightarrow> sublist sub s"
proof (induction s)
  case Nil
  then show ?case by simp
next
  case (Cons x xs)
  show ?case
  proof (cases sub)
    case Nil
    then show ?thesis by simp
  next
    case (Cons c cs)
    then show ?thesis
      using Cons.IH by (simp add: startsWith_iff sublist_Cons_right del: startsWith.simps)
  qed
qed

text \<open>
  Claim C6. When \<^verbatim>\<open>fetchVoices\<close> fails, \<^verbatim>\<open>GET\<close> answers 500 with one message chosen by
  what the failure detail contains: the permission hint if it contains
  \<^verbatim>\<open>missing_permissions\<close>; otherwise the invalid-key message if it contains \<^verbatim>\<open>401\<close>;
  otherwise the connectivity hint. The detail is the message of the error, or
  "Unknown error" when the thrown value is not an error.
\<close>

theorem voices_failure_message:
  "(sublist ''missing_permissions'' (failure_details error) \<longrightarrow>
      GET (Inl error) = NextResponse_json (JObj [(''error'', JStr permission_hint)]) 500)
   \<and> (\<not> sublist ''missing_permissions'' (failure_details error)
        \<and> sublist ''401'' (failure_details error) \<longrightarrow>
      GET (Inl error) = NextResponse_json (JObj [(''error'',
        JStr ''Invalid or unauthorized ElevenLabs API key. Check your key.'')]) 500)
   \<and> (\<not> sublist ''missing_permissions'' (failure_details error)
        \<and> \<not> sublist ''401'' (failure_details error) \<longrightarrow>
      GET (Inl error) = NextResponse_json (JObj [(''error'', JStr connectivity_hint)]) 500)"
  by (simp add: GET_def Let_def failure_details_def String_includes_iff permission_hint_def
        connectivity_hint_def)

lemma fetchVoices_failure_unauthorized:
  "fetchVoices_failure unauthorized_response =
     Error ''Failed to fetch voices (401 Unauthorized): unknown error''"
  by (simp add: fetchVoices_failure_def unauthorized_response_def string_of_nat.simps
        digit_char_def)

theorem voices_failure_message_witness:
  "GET (Inl (Error ''401 Unauthorized'')) =
     NextResponse_json (JObj [(''error'',
       JStr ''Invalid or unauthorized ElevenLabs API key. Check your key.'')]) 500
   \<and> GET (Inl (fetchVoices_failure unauthorized_response)) =
     NextResponse_json (JObj [(''error'',
       JStr ''Invalid or unauthorized ElevenLabs API key. Check your key.'')]) 500
   \<and> GET (Inl (Error ''status: missing_permissions (401)'')) =
     NextResponse_json (JObj [(''error'', JStr permission_hint)]) 500
   \<and> GET (Inl NonError) =
     NextResponse_json (JObj [(''error'', JStr connectivity_hint)]) 500"
proof -
  have a: "\<not> sublist ''missing_permissions'' ''401 Unauthorized''"
    "sublist ''401'' ''401 Unauthorized''"
    "\<not> sublist ''missing_permissions''
         ''Failed to fetch voices (401 Unauthorized): unknown error''"
    "sublist ''401'' ''Failed to fetch voices (401 Unauthorized): unknown error''"
    "sublist ''missing_permissions'' ''status: missing_permissions (401)''"
    "\<not> sublist ''missing_permissions'' ''Unknown error''"
    "\<not> sublist ''401'' ''Unknown error''"
    by (simp_all add: String_includes_iff [symmetric])
  from a voices_failure_message [of "Error ''401 Unauthorized''"]
    voices_failure_message [of "fetchVoices_failure unauthorized_response"]
    voices_failure_message [of "Error ''status: missing_permissions (401)''"]
    voices_failure_message [of NonError]
  show ?thesis
    by (simp add: failure_details_def fetchVoices_failure_unauthorized)
qed

section \<open>Playback\<close>

text \<open>
  Claim C9. \<^verbatim>\<open>play(source)\<close> reports idle when no element is attached; played when the
  element's \<^verbatim>\<open>play()\<close> resolves; blocked, with the autoplay warning, when it rejects with
  a \<^verbatim>\<open>NotAllowedError\<close> or \<^verbatim>\<open>AbortError\<close> \<^verbatim>\<open>DOMException\<close>; blocked, with the other
  warning, on any other rejection. It never throws, whatever \<^verbatim>\<open>load()\<close> does.
\<close>

theorem playback_classification:
  "(audioRef = None \<longrightarrow> play audioRef src = Inr (Idle, []))
   \<and> (\<forall>element. audioRef = Some element \<longrightarrow>
        (el_play element = None \<longrightarrow> play audioRef src = Inr (Played, []))
      \<and> (\<forall>name msg. el_play element = Some (DOMException name msg)
            \<and> (name = ''NotAllowedError'' \<or> name = ''AbortError'') \<longrightarrow>
          play audioRef src
            = Inr (Blocked, [(''[audio] Autoplay blocked by browser policy.'', None)]))
      \<and> (\<forall>error. el_play element = Some error
            \<and> \<not> (\<exists>name msg. error = DOMException name msg
                   \<and> (name = ''NotAllowedError'' \<or> name = ''AbortError'')) \<longrightarrow>
          play audioRef src
            = Inr (Blocked, [(''[audio] Failed to play audio element.'', Some error)])))
   \<and> (\<forall>error. play audioRef src \<noteq> Inl error)"
  by (cases audioRef)
     (auto simp: play_def setSourceAndPlay_def playElement_def try_catch_def await_play_def
        call_load_def Let_def split: option.splits thrown.splits sum.splits)

theorem playback_classification_witness:
  "play None ''blob:1'' = Inr (Idle, [])
   \<and> play (Some example_element) ''blob:1'' = Inr (Played, [])
   \<and> play (Some (example_element\<lparr> el_play := Some (DOMException ''NotAllowedError'' ''Blocked''),
          el_load := Some (Error ''load failed'') \<rparr>)) ''blob:1''
       = Inr (Blocked, [(''[audio] Autoplay blocked by browser policy.'', None)])
   \<and> play (Some (example_element\<lparr> el_play := Some (Error ''decode'') \<rparr>)) ''blob:1''
       = Inr (Blocked, [(''[audio] Failed to play audio element.'', Some (Error ''decode''))])"
  using playback_classification [of None "''blob:1''"]
    playback_classification [of "Some example_element" "''blob:1''"]
    playback_classification [of "Some (example_element\<lparr> el_play :=
        Some (DOMException ''NotAllowedError'' ''Blocked''),
        el_load := Some (Error ''load failed'') \<rparr>)" "''blob:1''"]
    playback_classification [of "Some (example_element\<lparr> el_play := Some (Error ''decode'') \<rparr>)"
      "''blob:1''"]
  by (simp add: example_element_def)

section \<open>The history\<close>

lemma history_handleSubmit_successful:
  assumes "successful sub"
  shows "st_history (handleSubmit sub s) = take MAX_HISTORY (entry_of sub # st_history s)"
proof -
  from assms obtain dataUrl where r: "sub_render sub = Inr dataUrl"
    by (cases "sub_render sub") (auto simp: successful_def)
  have h: "st_history (handlePlaybackStatus p t) = st_history t" for p t
    by (simp add: handlePlaybackStatus_def)
  from assms r show ?thesis
    by (simp add: handleSubmit_def Let_def successful_def submitted_voiceName_def h entry_of_def)
qed

lemma history_handleSubmit_unsuccessful:
  assumes "\<not> successful sub"
  shows "st_history (handleSubmit sub s) = st_history s"
  using assms
  by (cases "sub_render sub") (auto simp: handleSubmit_def Let_def successful_def)

lemma length_history_handleSubmit:
  assumes "length (st_history s) \<le> MAX_HISTORY"
  shows "length (st_history (handleSubmit sub s)) \<le> MAX_HISTORY"
proof (cases "successful sub")
  case True
  then show ?thesis by (simp add: history_handleSubmit_successful)
next
  case False
  with assms show ?thesis by (simp add: history_handleSubmit_unsuccessful)
qed

lemma history_run_submissions:
  assumes "length (st_history s) \<le> MAX_HISTORY"
  shows "st_history (run_submissions subs s) =
     take MAX_HISTORY (rev (map entry_of (filter successful subs)) @ st_history s)"
  using assms
proof (induction subs arbitrary: s)
  case Nil
  then show ?case by (simp add: run_submissions_def)
next
  case (Cons sub subs)
  have step: "st_history (run_submissions (sub # subs) s)
      = take MAX_HISTORY (rev (map entry_of (filter successful subs))
          @ st_history (handleSubmit sub s))"
    using Cons.IH [of "handleSubmit sub s"] length_history_handleSubmit [OF Cons.prems]
    by (simp add: run_submissions_def)
  show ?case
  proof (cases "successful sub")
    case True
    have "take n (xs @ take n ys) = take n (xs @ ys)" for xs ys :: "HistoryItem list" and n
      by (induction xs arbitrary: n) (simp, case_tac n, simp_all)
    with True show ?thesis
      unfolding step by (simp add: history_handleSubmit_successful)
  next
    case False
    then show ?thesis
      unfolding step by (simp add: history_handleSubmit_unsuccessful)
  qed
qed

text \<open>
  Claim C8. Starting from the empty history, after \<open>N\<close> successful syntheses the history
  has \<open>min N 5\<close> items, newest first: its texts and voice names are those of the last
  five submissions.
\<close>

theorem history_invariant:
  assumes "\<forall>sub \<in> set subs. successful sub"
  shows "length (st_history (run_submissions subs initial_studio)) = min (length subs) 5
       \<and> map HistoryItem.text (st_history (run_submissions subs initial_studio))
           = take 5 (rev (map sub_text subs))
       \<and> map voiceName (st_history (run_submissions subs initial_studio))
           = take 5 (rev (map submitted_voiceName subs))
       \<and> rev (map HistoryItem.text (st_history (run_submissions subs initial_studio)))
           = drop (length subs - 5) (map sub_text subs)
       \<and> rev (map voiceName (st_history (run_submissions subs initial_studio)))
           = drop (length subs - 5) (map submitted_voiceName subs)"
proof -
  from assms have f: "filter successful subs = subs"
    by (simp add: filter_id_conv)
  have h: "st_history (run_submissions subs initial_studio) = take 5 (rev (map entry_of subs))"
    by (simp add: history_run_submissions f initial_studio_def MAX_HISTORY_def)
  have t1: "map HistoryItem.text (st_history (run_submissions subs initial_studio))
      = take 5 (rev (map sub_text subs))"
    unfolding h by (simp add: take_map rev_map entry_of_def comp_def)
  have v1: "map voiceName (st_history (run_submissions subs initial_studio))
      = take 5 (rev (map submitted_voiceName subs))"
    unfolding h by (simp add: take_map rev_map entry_of_def comp_def)
  have l: "length (st_history (run_submissions subs initial_studio)) = min (length subs) 5"
    unfolding h by simp
  have d: "rev (take 5 (rev xs)) = drop (length xs - 5) xs" for xs :: "string list"
    by (simp add: take_rev)
  show ?thesis
    unfolding t1 v1 using l d [of "map sub_text subs"] d [of "map submitted_voiceName subs"]
    by simp
qed

lemma successful_example: "successful (example_submission t) \<longleftrightarrow> length t \<le> 30000"
  by (simp add: successful_def example_submission_def getCharacterLimit_def CHAR_LIMIT_OTHER_def)

theorem history_invariant_witness:
  "length (st_history (run_submissions
      (map example_submission [''a'', ''b'', ''c'', ''d'', ''e'', ''f'', ''g''])
      initial_studio)) = 5
   \<and> map HistoryItem.text (st_history (run_submissions
      (map example_submission [''a'', ''b'', ''c'', ''d'', ''e'', ''f'', ''g''])
      initial_studio)) = [''g'', ''f'', ''e'', ''d'', ''c'']
   \<and> map voiceName (st_history (run_submissions
      (map example_submission [''a'', ''b'', ''c'', ''d'', ''e'', ''f'', ''g''])
      initial_studio)) = [''Rachel'', ''Rachel'', ''Rachel'', ''Rachel'', ''Rachel'']"
proof -
  have s: "\<forall>sub \<in> set (map example_submission [''a'', ''b'', ''c'', ''d'', ''e'', ''f'', ''g'']).
      successful sub"
    by (simp add: successful_example)
  have t: "sub_text (example_submission t) = t"
    "submitted_voiceName (example_submission t) = ''Rachel''" for t
    by (simp_all add: example_submission_def submitted_voiceName_def example_voice_def)
  from history_invariant [OF s] show ?thesis
    by (simp add: t)
qed

section \<open>The schema on example bodies\<close>

lemmas schema_eval =
  synthesizeSchema_safeParse_def z_string_def z_number_def z_optional_def z_union_literals_def
  language_schema_def at_key_def LANGUAGE_OPTIONS_def Let_def zod_invalid_type_def
  json_type_def mk_payload_def

lemma safeParse_example_invalid:
  "synthesizeSchema_safeParse example_invalid_body =
     Inl [\<lparr> issue_path = [''text''], issue_message = ''Text is required'' \<rparr>,
          \<lparr> issue_path = [''voiceId''], issue_message = ''Voice is required'' \<rparr>]"
  by (simp add: example_invalid_body_def schema_eval)

lemma safeParse_example_valid:
  "synthesizeSchema_safeParse example_valid_body =
     Inr \<lparr> payload_text = ''Hello world'', payload_voiceId = ''voice-1'',
           payload_language = Some ''en'', payload_stability = Some 0.5,
           payload_similarityBoost = Some 0.7, payload_styleExaggeration = None,
           payload_optimizeStreamingLatency = Some 1, payload_modelId = None \<rparr>"
  by (simp add: example_valid_body_def schema_eval)

lemma safeParse_long_en:
  "synthesizeSchema_safeParse (long_text_body 5001 ''en'') =
     Inl [\<lparr> issue_path = [''text''],
            issue_message = ''Text must be shorter than 5,000 characters'' \<rparr>]"
  by (simp add: long_text_body_def schema_eval)

lemma safeParse_long_he:
  "synthesizeSchema_safeParse (long_text_body 5000 ''he'') =
     Inr \<lparr> payload_text = replicate 5000 (CHR ''a''), payload_voiceId = ''voice-1'',
           payload_language = Some ''he'', payload_stability = None,
           payload_similarityBoost = None, payload_styleExaggeration = None,
           payload_optimizeStreamingLatency = None, payload_modelId = None \<rparr>"
  by (simp add: long_text_body_def schema_eval)

section \<open>The validation message\<close>

lemma first_of_simps [simp]: "first_of [] = None" "first_of (m # ms) = Some m"
  by (simp_all add: first_of_def)

lemma nonempty_lists_add: "nonempty_lists fe \<Longrightarrow> nonempty_lists (add_fieldError k m fe)"
  by (induction fe) (auto simp: nonempty_lists_def)

lemma first_of_add:
  assumes "nonempty_lists fe"
  shows "first_of (concat (map snd (add_fieldError k m fe))) =
     (case first_of (concat (map snd fe)) of Some x \<Rightarrow> Some x | None \<Rightarrow> Some m)"
proof (cases fe)
  case Nil
  then show ?thesis by simp
next
  case (Cons p rest)
  obtain k' ms where p: "p = (k', ms)" by (cases p)
  with assms Cons obtain x xs where ms: "ms = x # xs"
    by (cases ms) (auto simp: nonempty_lists_def)
  show ?thesis by (simp add: Cons p ms)
qed

lemma flatten_into_fields:
  assumes "nonempty_lists (fieldErrors f)"
  shows "nonempty_lists (fieldErrors (flatten_into issues f))
       \<and> first_of (concat (map snd (fieldErrors (flatten_into issues f)))) =
           (case first_of (concat (map snd (fieldErrors f))) of
              Some x \<Rightarrow> Some x
            | None \<Rightarrow> map_option issue_message (find (\<lambda>i. issue_path i \<noteq> []) issues))"
  using assms
proof (induction issues arbitrary: f)
  case Nil
  then show ?case by (simp split: option.splits)
next
  case (Cons i issues)
  show ?case
  proof (cases "issue_path i")
    case Nil
    with Cons.IH [of "f\<lparr> formErrors := formErrors f @ [issue_message i] \<rparr>"] Cons.prems
    show ?thesis by (simp split: option.splits)
  next
    case (Cons k ks)
    let ?f = "f\<lparr> fieldErrors := add_fieldError k (issue_message i) (fieldErrors f) \<rparr>"
    have n: "nonempty_lists (fieldErrors ?f)"
      using Cons.prems by (simp add: nonempty_lists_add)
    have h: "first_of (concat (map snd (fieldErrors ?f))) =
        (case first_of (concat (map snd (fieldErrors f))) of
           Some x \<Rightarrow> Some x | None \<Rightarrow> Some (issue_message i))"
      using Cons.prems by (simp add: first_of_add)
    from Cons.IH [OF n] h Cons show ?thesis
      by (simp split: option.splits)
  qed
qed

lemma flatten_into_form:
  "formErrors (flatten_into issues f) =
     formErrors f @ map issue_message (filter (\<lambda>i. issue_path i = []) issues)"
proof (induction issues arbitrary: f)
  case Nil
  then show ?case by simp
next
  case (Cons i issues)
  then show ?case by (cases "issue_path i") simp_all
qed

lemma first_of_map_filter:
  "first_of (map g (filter P xs)) = map_option g (find P xs)"
  by (induction xs) simp_all

lemma getValidationMessage_eq:
  "getValidationMessage issues =
     (case find (\<lambda>i. issue_path i \<noteq> []) issues of
        Some i \<Rightarrow>
          if issue_message i \<noteq> [] then issue_message i
          else (case find (\<lambda>i. issue_path i = []) issues of
                  Some i' \<Rightarrow> issue_message i'
                | None \<Rightarrow> ''Please review the submitted values.'')
      | None \<Rightarrow>
          (case find (\<lambda>i. issue_path i = []) issues of
             Some i' \<Rightarrow> issue_message i'
           | None \<Rightarrow> ''Please review the submitted values.''))"
proof -
  have fld: "first_of (concat (map snd (fieldErrors (flatten issues)))) =
      map_option issue_message (find (\<lambda>i. issue_path i \<noteq> []) issues)"
    using flatten_into_fields [of "\<lparr> formErrors = [], fieldErrors = [] \<rparr>" issues]
    by (simp add: flatten_def nonempty_lists_def)
  have frm: "first_of (formErrors (flatten issues)) =
      map_option issue_message (find (\<lambda>i. issue_path i = []) issues)"
    by (simp add: flatten_def flatten_into_form first_of_map_filter)
  show ?thesis
    using fld frm
    by (simp add: getValidationMessage_def Let_def first_of_def split: option.splits)
qed

lemma issues_of_z_and: "issues_of (z_and a b) = issues_of a @ issues_of b"
  by (cases a; cases b) (simp_all add: issues_of_def)

lemma issues_of_Inr: "issues_of (Inr x) = []"
  by (simp add: issues_of_def)

lemma issues_of_at_key:
  "issues_of (at_key k r) = map (\<lambda>m. \<lparr> issue_path = [k], issue_message = m \<rparr>) (messages_of r)"
  by (cases r) (simp_all add: issues_of_def messages_of_def at_key_def)

lemma at_key_message:
  "i \<in> set (issues_of (at_key k r)) \<Longrightarrow> issue_message i \<in> set (messages_of r)"
  by (auto simp: issues_of_at_key)

lemma zod_invalid_type_nonempty: "zod_invalid_type expected v \<noteq> []"
  by (cases v) (simp_all add: zod_invalid_type_def)

lemma messages_z_string:
  assumes "m \<in> set (messages_of (z_string checks v))"
    and "checks = [StrMin 1 ''Text is required'',
                   StrMax 5000 ''Text must be shorter than 5,000 characters'']
         \<or> checks = [StrMin 1 ''Voice is required''] \<or> checks = []"
  shows "m \<noteq> []"
proof (cases "\<exists>s. v = Some (JStr s)")
  case True
  then obtain s where "v = Some (JStr s)" by blast
  with assms show ?thesis
    by (auto simp: z_string_def messages_of_def Let_def split: if_splits)
next
  case False
  then have "z_string checks v = Inl [zod_invalid_type ''string'' v]"
    by (auto simp: z_string_def split: option.splits json.splits)
  with assms(1) show ?thesis
    by (simp add: messages_of_def zod_invalid_type_nonempty)
qed

lemma messages_z_number:
  assumes "m \<in> set (messages_of (z_number checks v))" and "checks = [NumMin 0, NumMax 1]"
  shows "m \<noteq> []"
proof (cases "\<exists>r. v = Some (JNum r)")
  case True
  then obtain r where "v = Some (JNum r)" by blast
  with assms show ?thesis
    by (auto simp: z_number_def messages_of_def Let_def split: if_splits)
next
  case False
  then have "z_number checks v = Inl [zod_invalid_type ''number'' v]"
    by (auto simp: z_number_def split: option.splits json.splits)
  with assms(1) show ?thesis
    by (simp add: messages_of_def zod_invalid_type_nonempty)
qed

lemma messages_z_optional:
  assumes "m \<in> set (messages_of (z_optional inner v))"
  shows "m \<in> set (messages_of (inner v))"
  using assms
  by (cases v; cases "inner v") (auto simp: z_optional_def messages_of_def split: sum.splits)

lemma messages_z_union_literals:
  assumes "m \<in> set (messages_of (z_union_literals lits v))"
  shows "m \<noteq> []"
  using assms
  by (auto simp: z_union_literals_def messages_of_def split: option.splits json.splits if_splits)

lemma messages_language_schema:
  assumes "m \<in> set (messages_of (language_schema v))"
  shows "m \<noteq> []"
proof (cases "z_optional (z_string []) v")
  case (Inl ms)
  with assms have "m \<in> set (messages_of (z_optional (z_string []) v))"
    by (simp add: language_schema_def messages_of_def)
  then show ?thesis
    using messages_z_optional messages_z_string by blast
next
  case (Inr parsed)
  with assms show ?thesis
    by (auto simp: language_schema_def messages_of_def Let_def split: if_splits)
qed

lemma safeParse_issues_object:
  "issues_of (synthesizeSchema_safeParse (JObj ps)) =
     issues_of (at_key ''text''
        (z_string [StrMin 1 ''Text is required'',
                   StrMax 5000 ''Text must be shorter than 5,000 characters'']
           (json_get ''text'' (JObj ps))))
     @ issues_of (at_key ''voiceId''
        (z_string [StrMin 1 ''Voice is required''] (json_get ''voiceId'' (JObj ps))))
     @ issues_of (at_key ''language'' (language_schema (json_get ''language'' (JObj ps))))
     @ issues_of (at_key ''stability''
        (z_optional (z_number [NumMin 0, NumMax 1]) (json_get ''stability'' (JObj ps))))
     @ issues_of (at_key ''similarityBoost''
        (z_optional (z_number [NumMin 0, NumMax 1]) (json_get ''similarityBoost'' (JObj ps))))
     @ issues_of (at_key ''styleExaggeration''
        (z_optional (z_number [NumMin 0, NumMax 1]) (json_get ''styleExaggeration'' (JObj ps))))
     @ issues_of (at_key ''optimizeStreamingLatency''
        (z_optional (z_union_literals [0, 1, 2])
           (json_get ''optimizeStreamingLatency'' (JObj ps))))
     @ issues_of (at_key ''modelId'' (z_optional (z_string []) (json_get ''modelId'' (JObj ps))))"
  by (simp only: synthesizeSchema_safeParse_def json.case issues_of_z_and issues_of_Inr
        append_Nil append_assoc)

lemma safeParse_messages_nonempty:
  assumes "i \<in> set (issues_of (synthesizeSchema_safeParse j))"
  shows "issue_message i \<noteq> []"
proof (cases "\<exists>ps. j = JObj ps")
  case True
  then obtain ps where j: "j = JObj ps" by blast
  have str: "issue_message i \<noteq> []"
    if "i \<in> set (issues_of (at_key k (z_string checks v)))"
      and "checks = [StrMin 1 ''Text is required'',
                     StrMax 5000 ''Text must be shorter than 5,000 characters'']
           \<or> checks = [StrMin 1 ''Voice is required''] \<or> checks = []"
    for k checks v
    using that at_key_message messages_z_string by blast
  have ostr: "issue_message i \<noteq> []"
    if "i \<in> set (issues_of (at_key k (z_optional (z_string []) v)))" for k v
    using at_key_message [OF that] messages_z_optional messages_z_string by blast
  have num: "issue_message i \<noteq> []"
    if "i \<in> set (issues_of (at_key k (z_optional (z_number [NumMin 0, NumMax 1]) v)))" for k v
    using at_key_message [OF that] messages_z_optional messages_z_number by blast
  have uni: "issue_message i \<noteq> []"
    if "i \<in> set (issues_of (at_key k (z_optional (z_union_literals lits) v)))" for k lits v
    using at_key_message [OF that] messages_z_optional messages_z_union_literals by blast
  have lang: "issue_message i \<noteq> []"
    if "i \<in> set (issues_of (at_key k (language_schema v)))" for k v
    using at_key_message [OF that] messages_language_schema by blast
  from assms have "i \<in> set (issues_of (synthesizeSchema_safeParse (JObj ps)))"
    by (simp only: j)
  then show ?thesis
    unfolding safeParse_issues_object set_append Un_iff
    by (elim disjE)
      (erule str, simp, erule str, simp, erule lang, erule num, erule num, erule num,
       erule uni, erule ostr)
next
  case False
  then have "synthesizeSchema_safeParse j =
      Inl [\<lparr> issue_path = [], issue_message = zod_invalid_type ''object'' (Some j) \<rparr>]"
    by (cases j) (simp_all add: synthesizeSchema_safeParse_def)
  with assms show ?thesis
    by (simp add: issues_of_def zod_invalid_type_nonempty)
qed

text \<open>
  Claim C3. For every JSON body that fails the schema, \<^verbatim>\<open>POST\<close> answers 422 with the one
  message "Invalid input: m", where \<open>m\<close> is the message of the first issue under a
  property, else that of the first issue of the form, else the generic message.
\<close>

theorem validation_message:
  assumes "synthesizeSchema_safeParse j = Inl issues"
  shows "POST synth (Some j) =
     NextResponse_json
       (JObj [(''error'', JStr (''Invalid input: '' @ spec_validation_message issues))]) 422"
proof -
  have ne: "issue_message i \<noteq> []" if "i \<in> set issues" for i
    using that assms safeParse_messages_nonempty [of i j] by (simp add: issues_of_def)
  have "getValidationMessage issues = spec_validation_message issues"
  proof (cases "find (\<lambda>i. issue_path i \<noteq> []) issues")
    case None
    then show ?thesis
      by (simp add: getValidationMessage_eq spec_validation_message_def)
  next
    case (Some i)
    then have "i \<in> set issues"
      by (auto simp: find_Some_iff)
    with ne Some show ?thesis
      by (simp add: getValidationMessage_eq spec_validation_message_def)
  qed
  with assms show ?thesis
    by (simp add: POST_def)
qed

theorem validation_message_witness:
  "POST (\<lambda>input. Inr []) (Some example_invalid_body) =
     NextResponse_json (JObj [(''error'', JStr ''Invalid input: Text is required'')]) 422
   \<and> POST (\<lambda>input. Inr []) (Some (JNum 5)) =
     NextResponse_json
       (JObj [(''error'', JStr ''Invalid input: Expected object, received number'')]) 422"
proof -
  have "synthesizeSchema_safeParse (JNum 5) =
      Inl [\<lparr> issue_path = [], issue_message = ''Expected object, received number'' \<rparr>]"
    by (simp add: schema_eval)
  from validation_message [OF safeParse_example_invalid, of "\<lambda>input. Inr []"]
    validation_message [OF this, of "\<lambda>input. Inr []"]
  show ?thesis
    by (simp add: spec_validation_message_def)
qed

section \<open>Upstream failures and the bound on the text\<close>

lemma string_of_nat_401: "string_of_nat 401 = ''401''"
  by (simp add: string_of_nat.simps digit_char_def)

lemma synthesis_failure_part_002:
  assumes "synthesizeSchema_safeParse j = Inr payload"
    and "synth (input_of_payload payload) = Inl error"
  shows "POST synth (Some j) =
     NextResponse_json
       (JObj [(''error'', JStr ''Synthesis service failed. Please try again.'')]) 502"
  using assms by (simp add: POST_def)

lemma synthesizeSpeechStream_unauthorized:
  "synthesizeSpeechStream env (\<lambda>request. Inr unauthorized_response) input =
     Inl (Error ''Failed to synthesize speech (401 Unauthorized): unknown error'')"
  by (simp add: synthesizeSpeechStream_def unauthorized_response_def string_of_nat_401)

text \<open>
  Claim C4 holds of the handler of part_002 (\<open>synthesis_failure_part_002\<close> above) and
  fails of the handler of part_001, which puts the message of the upstream error into the
  body: with the request and the upstream error of the route's own test, and with a
  provider that answers 401.
\<close>

theorem synthesis_failure_part_001:
  "POST_part_001 (\<lambda>input. Inl (Error ''Upstream error'')) (Some example_valid_body) =
     NextResponse_json (JObj [(''error'', JStr ''Upstream error'')]) 502
   \<and> POST_part_001 (synthesizeSpeechStream example_env (\<lambda>request. Inr unauthorized_response))
       (Some example_valid_body) =
     NextResponse_json (JObj [(''error'',
       JStr ''Failed to synthesize speech (401 Unauthorized): unknown error'')]) 502"
  by (simp add: POST_part_001_def safeParse_example_valid synthesizeSpeechStream_unauthorized)

lemma synthesis_failure_part_002_example:
  "POST (\<lambda>input. Inl (Error ''Upstream error'')) (Some example_valid_body) =
     NextResponse_json
       (JObj [(''error'', JStr ''Synthesis service failed. Please try again.'')]) 502"
  by (rule synthesis_failure_part_002 [OF safeParse_example_valid]) simp

lemma text_verdict_by_length:
  "issues_of (at_key ''text''
        (z_string [StrMin 1 ''Text is required'',
                   StrMax 5000 ''Text must be shorter than 5,000 characters'']
           (Some (JStr s)))) =
     (if length s < 1 then [\<lparr> issue_path = [''text''], issue_message = ''Text is required'' \<rparr>]
      else if length s > 5000
      then [\<lparr> issue_path = [''text''],
              issue_message = ''Text must be shorter than 5,000 characters'' \<rparr>]
      else [])"
  by (simp add: z_string_def at_key_def issues_of_def Let_def)

lemma filter_at_key:
  "filter (\<lambda>i. issue_path i = [k]) (issues_of (at_key k' r)) =
     (if k' = k then issues_of (at_key k' r) else [])"
  by (simp add: issues_of_at_key filter_map comp_def)

text \<open>
  For every body with a string for its text, the issues the schema reports under
  \<^verbatim>\<open>text\<close> are a function of the length of the text alone: no other property of the
  body, language and model id included, has a part in them.
\<close>

lemma text_issues_by_length:
  assumes "json_get ''text'' (JObj ps) = Some (JStr s)"
  shows "filter (\<lambda>i. issue_path i = [''text''])
           (issues_of (synthesizeSchema_safeParse (JObj ps))) =
     (if length s < 1 then [\<lparr> issue_path = [''text''], issue_message = ''Text is required'' \<rparr>]
      else if length s > 5000
      then [\<lparr> issue_path = [''text''],
              issue_message = ''Text must be shorter than 5,000 characters'' \<rparr>]
      else [])"
  unfolding safeParse_issues_object filter_append filter_at_key assms text_verdict_by_length
  by simp

text \<open>
  Claim C5 against the code. The schema bounds the text by 5,000 code units for every
  model: an English text of 5,001 is refused although the form and the model table allow
  30,000 for it, and a Hebrew text of 5,000 is accepted although they allow 3,000.
\<close>

theorem text_bound_fixed:
  "synthesizeSchema_safeParse (long_text_body 5001 ''en'') =
     Inl [\<lparr> issue_path = [''text''],
            issue_message = ''Text must be shorter than 5,000 characters'' \<rparr>]
   \<and> POST (\<lambda>input. Inr []) (Some (long_text_body 5001 ''en'')) =
     NextResponse_json (JObj [(''error'',
       JStr ''Invalid input: Text must be shorter than 5,000 characters'')]) 422
   \<and> getCharacterLimit ''en'' = 30000
   \<and> getModelCharacterLimit
        (selectModelForLanguage (Some ''en'') (Some (ELEVENLABS_MODEL_ID example_env))) = 30000
   \<and> \<not> isl (synthesizeSchema_safeParse (long_text_body 5000 ''he''))
   \<and> getCharacterLimit ''he'' = 3000
   \<and> getModelCharacterLimit
        (selectModelForLanguage (Some ''he'') (Some (ELEVENLABS_MODEL_ID example_env))) = 3000"
proof -
  have "getValidationMessage [\<lparr> issue_path = [''text''],
            issue_message = ''Text must be shorter than 5,000 characters'' \<rparr>]
      = ''Text must be shorter than 5,000 characters''"
    by (simp add: getValidationMessage_eq)
  then show ?thesis
    by (simp add: safeParse_long_en safeParse_long_he POST_def getCharacterLimit_def
        CHAR_LIMIT_HEBREW_def CHAR_LIMIT_OTHER_def getModelCharacterLimit_def
        selectModelForLanguage_def example_env_def)
qed


end
